theory Spec2Isabelle
  imports Complex_Main
begin

section \<open>Data model (models.py)\<close>

text \<open>
  The pydantic models become records; a subclass becomes a record extension. Python's
  \<open>float\<close> fields are only stored and returned, never computed with, and are modelled
  as \<open>real\<close>. Status fields are \<open>str\<close> in the source and stay strings here.
\<close>

text \<open>
  A Python \<open>datetime\<close> is either naive (a wall-clock reading without time zone, here
  its count of microseconds) or aware (an instant in UTC together with the offset of its
  time zone). pydantic parses a timestamp without offset into a naive value and one with
  an offset, such as \<open>2030-01-01T10:00:00Z\<close>, into an aware value, so the two
  timestamps of a request can be either. The code only compares datetimes and copies
  them. An order comparison of two naive values compares the readings; an order
  comparison of a naive with an aware value raises \<open>TypeError\<close>.
\<close>

type_synonym naive_datetime = int

datatype datetime = Naive naive_datetime | Aware (utc_instant: int) (utcoffset: int)

record Connector =
  connector_id :: string
  type :: string
  power_kw :: real
  status :: string

record ChargingStationBase =
  name :: string
  location_coords :: "real list"
  address :: string
  owner :: string
  is_public :: bool
  connectors :: "Connector list"

record ChargingStation = ChargingStationBase +
  station_id :: string
  overall_status :: string

text \<open>
  The base class of requests and sessions, with the type of its two timestamps left open:
  a request carries what pydantic parsed, naive or aware. A \<open>ChargingSession\<close> is
  constructed at one place only, in reserve after both of its comparisons have returned,
  which they do for naive timestamps only; every later assignment to one of its datetime
  fields is a reading of \<open>datetime.utcnow()\<close>, which is naive. So the datetimes of a
  session are naive throughout, and the record keeps them as such.
\<close>

record 't ChargingSessionBase =
  station_id :: string
  connector_id :: string
  user_id :: string
  start_time :: 't
  expected_end_time :: 't

text \<open>\<open>ChargingSessionCreate\<close> adds no field to its base class.\<close>

type_synonym ChargingSessionCreate = "datetime ChargingSessionBase"

record ChargingSession = "naive_datetime ChargingSessionBase" +
  session_id :: string
  actual_end_time :: "naive_datetime option"
  kwh_consumed :: "real option"
  cost :: "real option"
  status :: string
  created_at :: naive_datetime
  updated_at :: naive_datetime

section \<open>The in-memory store and the errors (main.py)\<close>

text \<open>
  The two module-level lists are the whole mutable state. Every endpoint takes the state
  and returns the state it leaves behind together with its outcome, so that what a call
  does to the store before it raises is part of the model. A raised exception is the
  \<open>Inl\<close> outcome: an \<open>HTTPException\<close> with its status code and detail message, or
  the \<open>TypeError\<close> of a comparison, which no handler catches and the framework
  answers with status 500. The
  endpoints contain no \<open>await\<close>; each is modelled as one call that runs to completion
  on the store, and interleavings of concurrent calls are outside this model.
\<close>

record state =
  mock_stations_db :: "ChargingStation list"
  mock_sessions_db :: "ChargingSession list"

datatype raised = HTTPException (status_code: nat) (detail: string) | TypeError

definition HTTP_400_BAD_REQUEST :: nat where "HTTP_400_BAD_REQUEST = 400"

definition HTTP_404_NOT_FOUND :: nat where "HTTP_404_NOT_FOUND = 404"

definition HTTP_409_CONFLICT :: nat where "HTTP_409_CONFLICT = 409"

definition initial_stations :: "ChargingStation list" where
  "initial_stations =
    [\<lparr>name = ''Downtown Fast Charger'', location_coords = [34.0522, -118.2437],
      address = ''123 Main St, Anytown'', owner = ''EVChargeCo'', is_public = True,
      connectors =
        [\<lparr>Connector.connector_id = ''C-001-1'', type = ''CCS1'', power_kw = 50.0,
          Connector.status = ''available''\<rparr>,
         \<lparr>Connector.connector_id = ''C-001-2'', type = ''J1772'', power_kw = 7.2,
          Connector.status = ''available''\<rparr>],
      ChargingStation.station_id = ''STN-001'', overall_status = ''active''\<rparr>,
     \<lparr>name = ''Parkside L2 Chargers'', location_coords = [34.0722, -118.2537],
      address = ''456 Oak Ave, Anytown'', owner = ''CityPower'', is_public = True,
      connectors =
        [\<lparr>Connector.connector_id = ''C-002-1'', type = ''J1772'', power_kw = 7.2,
          Connector.status = ''available''\<rparr>,
         \<lparr>Connector.connector_id = ''C-002-2'', type = ''J1772'', power_kw = 7.2,
          Connector.status = ''available''\<rparr>],
      ChargingStation.station_id = ''STN-002'', overall_status = ''active''\<rparr>]"

definition initial_state :: state where
  "initial_state = \<lparr>mock_stations_db = initial_stations, mock_sessions_db = []\<rparr>"

subsection \<open>check_connector_availability\<close>

text \<open>
  The loop over \<open>mock_sessions_db\<close> with its early \<open>return False\<close>; the list read
  from the global is the first argument.
\<close>

fun check_connector_availability ::
  "ChargingSession list \<Rightarrow> string \<Rightarrow> string \<Rightarrow> naive_datetime \<Rightarrow> naive_datetime \<Rightarrow> bool" where
  "check_connector_availability [] sid cid start_t end_t = True"
| "check_connector_availability (existing_session # rest) sid cid start_t end_t =
     (if station_id existing_session = sid \<and>
         connector_id existing_session = cid \<and>
         status existing_session \<in> set [''reserved'', ''in_progress'']
      then (if \<not> (end_t \<le> start_time existing_session \<or>
                    start_t \<ge> expected_end_time existing_session)
            then False
            else check_connector_availability rest sid cid start_t end_t)
      else check_connector_availability rest sid cid start_t end_t)"

subsection \<open>Looking up and mutating a connector\<close>

text \<open>
  \<open>next((c for c in target_station.connectors if ...), None)\<close> inside
  \<open>next((s for s in mock_stations_db if ...), None)\<close>: the first connector with the id
  in the first station with the id.
\<close>

definition find_station :: "ChargingStation list \<Rightarrow> string \<Rightarrow> ChargingStation option" where
  "find_station stations sid = find (\<lambda>s. ChargingStation.station_id s = sid) stations"

definition find_connector :: "Connector list \<Rightarrow> string \<Rightarrow> Connector option" where
  "find_connector cs cid = find (\<lambda>c. Connector.connector_id c = cid) cs"

text \<open>
  The nested loops of start, end and cancel: the first station with the id is searched
  for the first connector with the id, whose status is assigned; both loops \<open>break\<close>.
  Reserve assigns to \<open>target_connector\<close>, the same object found by the two \<open>next\<close>.
\<close>

fun set_status_in :: "Connector list \<Rightarrow> string \<Rightarrow> string \<Rightarrow> Connector list" where
  "set_status_in [] cid v = []"
| "set_status_in (connector # rest) cid v =
     (if Connector.connector_id connector = cid
      then connector\<lparr>Connector.status := v\<rparr> # rest
      else connector # set_status_in rest cid v)"

fun set_connector_status ::
  "ChargingStation list \<Rightarrow> string \<Rightarrow> string \<Rightarrow> string \<Rightarrow> ChargingStation list" where
  "set_connector_status [] sid cid v = []"
| "set_connector_status (station # rest) sid cid v =
     (if ChargingStation.station_id station = sid
      then station\<lparr>connectors := set_status_in (connectors station) cid v\<rparr> # rest
      else station # set_connector_status rest sid cid v)"

subsection \<open>Looking up and mutating a session\<close>

text \<open>
  \<open>next((s for s in mock_sessions_db if s.session_id == session_id), None)\<close> returns
  the first session with the id; assigning to its attributes changes that element of the
  list in place.
\<close>

definition find_session :: "ChargingSession list \<Rightarrow> string \<Rightarrow> ChargingSession option" where
  "find_session sessions sid = find (\<lambda>s. session_id s = sid) sessions"

fun replace_session :: "ChargingSession list \<Rightarrow> string \<Rightarrow> ChargingSession \<Rightarrow> ChargingSession list" where
  "replace_session [] sid new = []"
| "replace_session (s # rest) sid new =
     (if session_id s = sid then new # rest else s # replace_session rest sid new)"

subsection \<open>create_charging_session (POST /sessions)\<close>

text \<open>
  What the call reads from its environment is passed in: \<open>now\<close> is the value of
  \<open>datetime.now()\<close>, \<open>new_session_id\<close> the string of \<open>uuid.uuid4()\<close>, and
  \<open>utc_created\<close>, \<open>utc_updated\<close> the two successive values of \<open>datetime.utcnow()\<close>.

  The first comparison, \<open>session_data.expected_end_time <= datetime.now()\<close>, has a
  naive right-hand side, so it raises \<open>TypeError\<close> when the expected end time is aware.
  The second, \<open>session_data.start_time >= session_data.expected_end_time\<close>, is reached
  with a naive expected end time only, so it raises when the start time is aware. Nothing
  has been written to the store at either point.
\<close>

definition create_charging_session ::
  "naive_datetime \<Rightarrow> string \<Rightarrow> naive_datetime \<Rightarrow> naive_datetime \<Rightarrow> ChargingSessionCreate
     \<Rightarrow> state
     \<Rightarrow> state \<times> (raised + ChargingSession)" where
  "create_charging_session now new_session_id utc_created utc_updated session_data st =
     (case expected_end_time session_data of
        Aware u off \<Rightarrow> (st, Inl TypeError)
      | Naive end_t \<Rightarrow>
      if end_t \<le> now
      then (st, Inl (HTTPException HTTP_400_BAD_REQUEST ''Cannot reserve a session in the past.''))
      else case start_time session_data of
        Aware u off \<Rightarrow> (st, Inl TypeError)
      | Naive start_t \<Rightarrow>
      if start_t \<ge> end_t
      then (st, Inl (HTTPException HTTP_400_BAD_REQUEST ''Start time must be before end time.''))
      else case find_station (mock_stations_db st) (station_id session_data) of
        None \<Rightarrow> (st, Inl (HTTPException HTTP_404_NOT_FOUND
                   (''Charging station with ID '' @ [CHR 0x27] @ station_id session_data
                      @ ''' not found.'')))
      | Some target_station \<Rightarrow>
         (case find_connector (connectors target_station) (connector_id session_data) of
            None \<Rightarrow> (st, Inl (HTTPException HTTP_404_NOT_FOUND
                       (''Connector with ID '' @ [CHR 0x27] @ connector_id session_data
                          @ ''' not found at station '' @ [CHR 0x27]
                          @ station_id session_data @ '''.'')))
          | Some target_connector \<Rightarrow>
             if Connector.status target_connector \<noteq> ''available''
             then (st, Inl (HTTPException HTTP_409_CONFLICT
                     (''Connector '' @ connector_id session_data @ '' is currently ''
                        @ Connector.status target_connector @ ''.'')))
             else if \<not> check_connector_availability (mock_sessions_db st)
                         (station_id session_data) (connector_id session_data)
                         start_t end_t
             then (st, Inl (HTTPException HTTP_409_CONFLICT
                     (''Connector '' @ connector_id session_data @ '' at ''
                        @ station_id session_data
                        @ '' is not available during the requested time.'')))
             else
               let new_session =
                     \<lparr>station_id = station_id session_data,
                      connector_id = connector_id session_data,
                      user_id = user_id session_data,
                      start_time = start_t,
                      expected_end_time = end_t,
                      session_id = new_session_id,
                      actual_end_time = None, kwh_consumed = None, cost = None,
                      status = ''reserved'',
                      created_at = utc_created, updated_at = utc_updated\<rparr>;
                   st1 = st\<lparr>mock_sessions_db := mock_sessions_db st @ [new_session]\<rparr>;
                   st2 = st1\<lparr>mock_stations_db :=
                           set_connector_status (mock_stations_db st1)
                             (station_id session_data) (connector_id session_data)
                             ''reserved''\<rparr>
               in (st2, Inr new_session)))"

subsection \<open>start_charging_session (PUT /sessions/{session_id}/start)\<close>

text \<open>\<open>utc_start\<close> and \<open>utc_updated\<close> are the two values of \<open>datetime.utcnow()\<close>.\<close>

definition start_charging_session ::
  "naive_datetime \<Rightarrow> naive_datetime \<Rightarrow> string \<Rightarrow> state
     \<Rightarrow> state \<times> (raised + ChargingSession)" where
  "start_charging_session utc_start utc_updated sid st =
     (case find_session (mock_sessions_db st) sid of
        None \<Rightarrow> (st, Inl (HTTPException HTTP_404_NOT_FOUND ''Session not found.''))
      | Some session \<Rightarrow>
          if status session \<noteq> ''reserved''
          then (st, Inl (HTTPException HTTP_400_BAD_REQUEST
                  ''Session is not in 'reserved' status.''))
          else
            let session1 = session\<lparr>status := ''in_progress''\<rparr>;
                session2 = session1\<lparr>start_time := utc_start\<rparr>;
                session3 = session2\<lparr>updated_at := utc_updated\<rparr>;
                st1 = st\<lparr>mock_sessions_db := replace_session (mock_sessions_db st) sid session3\<rparr>;
                st2 = st1\<lparr>mock_stations_db :=
                        set_connector_status (mock_stations_db st1)
                          (station_id session3) (connector_id session3) ''occupied''\<rparr>
            in (st2, Inr session3))"

subsection \<open>end_charging_session (PUT /sessions/{session_id}/end)\<close>

text \<open>\<open>utc_end\<close> and \<open>utc_updated\<close> are the two values of \<open>datetime.utcnow()\<close>.\<close>

definition end_charging_session ::
  "naive_datetime \<Rightarrow> naive_datetime \<Rightarrow> string \<Rightarrow> real \<Rightarrow> real \<Rightarrow> state
     \<Rightarrow> state \<times> (raised + ChargingSession)" where
  "end_charging_session utc_end utc_updated sid kwh c st =
     (case find_session (mock_sessions_db st) sid of
        None \<Rightarrow> (st, Inl (HTTPException HTTP_404_NOT_FOUND ''Session not found.''))
      | Some session \<Rightarrow>
          if status session \<noteq> ''in_progress''
          then (st, Inl (HTTPException HTTP_400_BAD_REQUEST
                  ''Session is not in 'in_progress' status.''))
          else
            let session1 = session\<lparr>status := ''completed''\<rparr>;
                session2 = session1\<lparr>actual_end_time := Some utc_end\<rparr>;
                session3 = session2\<lparr>kwh_consumed := Some kwh\<rparr>;
                session4 = session3\<lparr>cost := Some c\<rparr>;
                session5 = session4\<lparr>updated_at := utc_updated\<rparr>;
                st1 = st\<lparr>mock_sessions_db := replace_session (mock_sessions_db st) sid session5\<rparr>;
                st2 = st1\<lparr>mock_stations_db :=
                        set_connector_status (mock_stations_db st1)
                          (station_id session5) (connector_id session5) ''available''\<rparr>
            in (st2, Inr session5))"

subsection \<open>cancel_charging_session (DELETE /sessions/{session_id})\<close>

text \<open>
  The \<open>for i, session in enumerate(mock_sessions_db)\<close> loop: \<open>i\<close> is the index of the
  session under inspection and the third argument the part of the list still to visit.
  The loop returns the state and either the exception raised in its \<open>else\<close> branch or the
  final value of \<open>session_found\<close>. \<open>utc_updated\<close> is the value of
  \<open>datetime.utcnow()\<close>.
\<close>

fun cancel_loop ::
  "naive_datetime \<Rightarrow> string \<Rightarrow> nat \<Rightarrow> ChargingSession list \<Rightarrow> state
     \<Rightarrow> state \<times> (raised + bool)" where
  "cancel_loop utc_updated sid i [] st = (st, Inr False)"
| "cancel_loop utc_updated sid i (session # rest) st =
     (if session_id session = sid
      then (if status session = ''reserved''
            then
              let session1 = session\<lparr>status := ''cancelled''\<rparr>;
                  session2 = session1\<lparr>updated_at := utc_updated\<rparr>;
                  st1 = st\<lparr>mock_sessions_db := (mock_sessions_db st)[i := session2]\<rparr>;
                  st2 = st1\<lparr>mock_stations_db :=
                          set_connector_status (mock_stations_db st1)
                            (station_id session2) (connector_id session2) ''available''\<rparr>
              in (st2, Inr True)
            else (st, Inl (HTTPException HTTP_400_BAD_REQUEST
                    ''Only 'reserved' sessions can be cancelled via this endpoint.'')))
      else cancel_loop utc_updated sid (Suc i) rest st)"

definition cancel_charging_session ::
  "naive_datetime \<Rightarrow> string \<Rightarrow> state \<Rightarrow> state \<times> (raised + unit)" where
  "cancel_charging_session utc_updated sid st =
     (case cancel_loop utc_updated sid 0 (mock_sessions_db st) st of
        (st', Inl e) \<Rightarrow> (st', Inl e)
      | (st', Inr session_found) \<Rightarrow>
          if \<not> session_found
          then (st', Inl (HTTPException HTTP_404_NOT_FOUND ''Session not found.''))
          else (st', Inr ()))"

section \<open>Observations and reachable states\<close>

text \<open>
  The connector a pair of ids resolves to, by the lookup the endpoints use, and its
  status.
\<close>

definition lookup_connector :: "ChargingStation list \<Rightarrow> string \<Rightarrow> string \<Rightarrow> Connector option" where
  "lookup_connector stations sid cid =
     (case find_station stations sid of
        None \<Rightarrow> None
      | Some station \<Rightarrow> find_connector (connectors station) cid)"

definition connector_status_of :: "state \<Rightarrow> string \<Rightarrow> string \<Rightarrow> string option" where
  "connector_status_of st sid cid =
     map_option Connector.status (lookup_connector (mock_stations_db st) sid cid)"

text \<open>The non-terminal sessions of the ledger that reference a given connector.\<close>

definition non_terminal :: "ChargingSession \<Rightarrow> bool" where
  "non_terminal s \<longleftrightarrow> status s = ''reserved'' \<or> status s = ''in_progress''"

definition sessions_on :: "state \<Rightarrow> string \<Rightarrow> string \<Rightarrow> ChargingSession list" where
  "sessions_on st sid cid =
     filter (\<lambda>s. station_id s = sid \<and> connector_id s = cid \<and> non_terminal s)
       (mock_sessions_db st)"

text \<open>
  The states the service can be in: the seeded store, and whatever a call of one of the
  four mutating endpoints leaves behind, whether the call succeeds or raises, for any
  request and any values of the clock and of the id generator.
\<close>

inductive reachable :: "state \<Rightarrow> bool" where
  reach_init: "reachable initial_state"
| reach_reserve: "reachable st \<Longrightarrow>
     reachable (fst (create_charging_session now new_session_id utc_created utc_updated
                       session_data st))"
| reach_start: "reachable st \<Longrightarrow>
     reachable (fst (start_charging_session utc_start utc_updated sid st))"
| reach_end: "reachable st \<Longrightarrow>
     reachable (fst (end_charging_session utc_end utc_updated sid kwh c st))"
| reach_cancel: "reachable st \<Longrightarrow>
     reachable (fst (cancel_charging_session utc_updated sid st))"

section \<open>Invariants of the store\<close>

text \<open>
  Every session of the ledger references a connector that the lookup finds.
\<close>

definition inv_resolves :: "state \<Rightarrow> bool" where
  "inv_resolves st \<longleftrightarrow>
     (\<forall>s \<in> set (mock_sessions_db st).
        lookup_connector (mock_stations_db st) (station_id s) (connector_id s) \<noteq> None)"

text \<open>
  A connector has at most one non-terminal session, and none while its status is
  \<open>available\<close>.
\<close>

definition inv_active :: "state \<Rightarrow> bool" where
  "inv_active st \<longleftrightarrow>
     (\<forall>sid cid. length (sessions_on st sid cid) \<le> 1 \<and>
        (connector_status_of st sid cid = Some ''available'' \<longrightarrow> sessions_on st sid cid = []))"

text \<open>
  The common shape of what start, end and cancel do on success: the first session with
  the id is replaced by its updated copy, and the connector it references gets a new
  status.
\<close>

definition transition :: "state \<Rightarrow> string \<Rightarrow> ChargingSession \<Rightarrow> ChargingSession \<Rightarrow> string \<Rightarrow> state" where
  "transition st sid old new v =
     st\<lparr>mock_sessions_db := replace_session (mock_sessions_db st) sid new,
        mock_stations_db := set_connector_status (mock_stations_db st)
                              (station_id old) (connector_id old) v\<rparr>"

section \<open>The outcome of a reservation\<close>

text \<open>
  The session that reserve constructs from the generated id, the two clock readings, the
  request, and the readings of the request's two naive timestamps.
\<close>

definition new_reservation ::
  "string \<Rightarrow> naive_datetime \<Rightarrow> naive_datetime \<Rightarrow> ChargingSessionCreate
     \<Rightarrow> naive_datetime \<Rightarrow> naive_datetime \<Rightarrow> ChargingSession" where
  "new_reservation new_session_id utc_created utc_updated session_data start_t end_t =
     \<lparr>station_id = station_id session_data,
      connector_id = connector_id session_data,
      user_id = user_id session_data,
      start_time = start_t,
      expected_end_time = end_t,
      session_id = new_session_id,
      actual_end_time = None, kwh_consumed = None, cost = None,
      status = ''reserved'',
      created_at = utc_created, updated_at = utc_updated\<rparr>"

text \<open>
  The two mutations of a successful reserve: the session is appended to the ledger and
  the connector it references is marked \<open>reserved\<close>.
\<close>

definition commit_reservation :: "state \<Rightarrow> ChargingSession \<Rightarrow> state" where
  "commit_reservation st new_session =
     st\<lparr>mock_sessions_db := mock_sessions_db st @ [new_session],
        mock_stations_db := set_connector_status (mock_stations_db st)
                              (station_id new_session) (connector_id new_session) ''reserved''\<rparr>"

text \<open>
  The six validation checks of reserve, in the order of the source: the window ends after
  the current time, it starts before it ends, the station exists, the connector exists on
  it, the connector is \<open>available\<close>, and the availability check finds no overlap. The
  first two are comparisons that return only for naive timestamps.
\<close>

definition checks_pass :: "naive_datetime \<Rightarrow> ChargingSessionCreate \<Rightarrow> state \<Rightarrow> bool" where
  "checks_pass now session_data st \<longleftrightarrow>
     (case expected_end_time session_data of
        Aware u off \<Rightarrow> False
      | Naive end_t \<Rightarrow>
          now < end_t \<and>
          (case start_time session_data of
             Aware u off \<Rightarrow> False
           | Naive start_t \<Rightarrow>
               start_t < end_t \<and>
               find_station (mock_stations_db st) (station_id session_data) \<noteq> None \<and>
               lookup_connector (mock_stations_db st) (station_id session_data)
                 (connector_id session_data) \<noteq> None \<and>
               connector_status_of st (station_id session_data) (connector_id session_data) =
                 Some ''available'' \<and>
               check_connector_availability (mock_sessions_db st) (station_id session_data)
                 (connector_id session_data) start_t end_t))"

section \<open>A sample run\<close>

text \<open>
  The run of the service used to evaluate the theorems on concrete inputs: user U1
  reserves connector C-001-1 of station STN-001 for the window from 600 to 660, the
  request arriving at time 500.
\<close>

definition ex_request :: ChargingSessionCreate where
  "ex_request = \<lparr>station_id = ''STN-001'', connector_id = ''C-001-1'', user_id = ''U1'',
                  start_time = Naive 600, expected_end_time = Naive 660\<rparr>"

text \<open>
  The session this request creates when the id generator returns \<open>s1\<close> and the clock
  reads 501 and then 502.
\<close>

definition ex_session :: ChargingSession where
  "ex_session = \<lparr>station_id = ''STN-001'', connector_id = ''C-001-1'', user_id = ''U1'',
                  start_time = 600, expected_end_time = 660, session_id = ''s1'',
                  actual_end_time = None, kwh_consumed = None, cost = None,
                  status = ''reserved'', created_at = 501, updated_at = 502\<rparr>"

text \<open>The store after that reservation.\<close>

definition ex_reserved :: state where
  "ex_reserved = fst (create_charging_session 500 ''s1'' 501 502 ex_request initial_state)"

text \<open>
  A store in which the ledger holds the sample reservation while the connector still
  reads \<open>available\<close>; only such a store lets a request reach the sixth check with an
  overlap.
\<close>

definition ex_unbooked :: state where
  "ex_unbooked = \<lparr>mock_stations_db = initial_stations, mock_sessions_db = [ex_session]\<rparr>"

text \<open>The sample run continued by a cancellation at time 550.\<close>

definition ex_cancelled :: state where
  "ex_cancelled = fst (cancel_charging_session 550 ''s1'' ex_reserved)"

text \<open>The sample run continued by a start at time 601.\<close>

definition ex_started :: state where
  "ex_started = fst (start_charging_session 601 602 ''s1'' ex_reserved)"

text \<open>
  The sample run continued by a start at time 700, after the reserved window has ended
  at 660, and the session that start returns.
\<close>

definition ex_late_session :: ChargingSession where
  "ex_late_session = ex_session\<lparr>status := ''in_progress'', start_time := 700, updated_at := 701\<rparr>"

definition ex_late :: state where
  "ex_late = fst (start_charging_session 700 701 ''s1'' ex_reserved)"

section \<open>The availability check\<close>

lemma check_connector_availability_iff:
  "check_connector_availability db sid cid start_t end_t \<longleftrightarrow>
     (\<forall>s \<in> set db. station_id s = sid \<and> connector_id s = cid \<and>
        (status s = ''reserved'' \<or> status s = ''in_progress'') \<longrightarrow>
        end_t \<le> start_time s \<or> start_t \<ge> expected_end_time s)"
  by (induction db) auto

section \<open>Lookups and in-place updates\<close>

lemmas http_codes = HTTP_400_BAD_REQUEST_def HTTP_404_NOT_FOUND_def HTTP_409_CONFLICT_def

subsection \<open>Connectors\<close>

lemma find_connector_set_status_in:
  "find_connector (set_status_in cs cid v) cid' =
     (if cid' = cid then map_option (\<lambda>c. c\<lparr>Connector.status := v\<rparr>) (find_connector cs cid)
      else find_connector cs cid')"
  by (induction cs) (auto simp: find_connector_def)

lemma lookup_connector_set_connector_status:
  "lookup_connector (set_connector_status sts sid cid v) sid' cid' =
     (if sid' = sid \<and> cid' = cid
      then map_option (\<lambda>c. c\<lparr>Connector.status := v\<rparr>) (lookup_connector sts sid cid)
      else lookup_connector sts sid' cid')"
  by (induction sts) (auto simp: lookup_connector_def find_station_def find_connector_set_status_in)



subsection \<open>Sessions\<close>

lemma find_session_replace:
  "session_id new = sid \<Longrightarrow>
   find_session (replace_session db sid new) sid' =
     (if sid' = sid then map_option (\<lambda>_. new) (find_session db sid) else find_session db sid')"
  by (induction db) (auto simp: find_session_def)

lemma find_session_Some:
  "find_session db sid = Some s \<Longrightarrow> s \<in> set db \<and> session_id s = sid"
  by (induction db) (auto simp: find_session_def split: if_splits)

lemma find_session_None:
  "find_session db sid = None \<longleftrightarrow> (\<forall>s \<in> set db. session_id s \<noteq> sid)"
  by (induction db) (auto simp: find_session_def)

lemma set_replace_session:
  "set (replace_session db sid new) \<subseteq> insert new (set db)"
  by (induction db) auto

lemma filter_replace_same:
  "find_session db sid = Some old \<Longrightarrow> P old = P new \<Longrightarrow>
   length (filter P (replace_session db sid new)) = length (filter P db)"
  by (induction db) (auto simp: find_session_def split: if_splits)

lemma filter_replace_drop:
  "find_session db sid = Some old \<Longrightarrow> P old \<Longrightarrow> \<not> P new \<Longrightarrow>
   Suc (length (filter P (replace_session db sid new))) = length (filter P db)"
  by (induction db) (auto simp: find_session_def split: if_splits)

lemma filter_replace_neither:
  "find_session db sid = Some old \<Longrightarrow> \<not> P old \<Longrightarrow> \<not> P new \<Longrightarrow>
   filter P (replace_session db sid new) = filter P db"
  by (induction db) (auto simp: find_session_def split: if_splits)

subsection \<open>The cancel loop\<close>

text \<open>
  The loop of cancel visits the ledger from the front and stops at the first session
  with the id, so it acts on the session that \<open>find_session\<close> returns.
\<close>

lemma replace_session_append:
  "\<forall>s \<in> set pre. session_id s \<noteq> sid \<Longrightarrow>
   replace_session (pre @ rest) sid new = pre @ replace_session rest sid new"
  by (induction pre) auto

lemma cancel_loop_char:
  "mock_sessions_db st = pre @ rest \<Longrightarrow> i = length pre \<Longrightarrow>
   \<forall>s \<in> set pre. session_id s \<noteq> sid \<Longrightarrow>
   cancel_loop u sid i rest st =
     (case find_session rest sid of
        None \<Rightarrow> (st, Inr False)
      | Some session \<Rightarrow>
          if status session = ''reserved''
          then (st\<lparr>mock_sessions_db :=
                     replace_session (mock_sessions_db st) sid
                       (session\<lparr>status := ''cancelled'', updated_at := u\<rparr>),
                   mock_stations_db :=
                     set_connector_status (mock_stations_db st)
                       (station_id session) (connector_id session) ''available''\<rparr>, Inr True)
          else (st, Inl (HTTPException 400
                  ''Only 'reserved' sessions can be cancelled via this endpoint.'')))"
proof (induction rest arbitrary: pre i)
  case Nil
  then show ?case by (simp add: find_session_def)
next
  case (Cons a rest)
  show ?case
  proof (cases "session_id a = sid")
    case True
    have upd: "(pre @ a # rest)[length pre := x] = pre @ x # rest" for x
      by (simp add: list_update_append)
    from True Cons.prems show ?thesis
      by (simp add: find_session_def Let_def http_codes replace_session_append upd)
  next
    case False
    have "cancel_loop u sid (Suc i) rest st = (case find_session rest sid of
        None \<Rightarrow> (st, Inr False)
      | Some session \<Rightarrow>
          if status session = ''reserved''
          then (st\<lparr>mock_sessions_db :=
                     replace_session (mock_sessions_db st) sid
                       (session\<lparr>status := ''cancelled'', updated_at := u\<rparr>),
                   mock_stations_db :=
                     set_connector_status (mock_stations_db st)
                       (station_id session) (connector_id session) ''available''\<rparr>, Inr True)
          else (st, Inl (HTTPException 400
                  ''Only 'reserved' sessions can be cancelled via this endpoint.'')))"
      using Cons.prems False by (intro Cons.IH[of "pre @ [a]"]) auto
    with False show ?thesis by (simp add: find_session_def)
  qed
qed

lemma cancel_charging_session_char:
  "cancel_charging_session u sid st =
     (case find_session (mock_sessions_db st) sid of
        None \<Rightarrow> (st, Inl (HTTPException 404 ''Session not found.''))
      | Some session \<Rightarrow>
          if status session = ''reserved''
          then (st\<lparr>mock_sessions_db :=
                     replace_session (mock_sessions_db st) sid
                       (session\<lparr>status := ''cancelled'', updated_at := u\<rparr>),
                   mock_stations_db :=
                     set_connector_status (mock_stations_db st)
                       (station_id session) (connector_id session) ''available''\<rparr>, Inr ())
          else (st, Inl (HTTPException 400
                  ''Only 'reserved' sessions can be cancelled via this endpoint.'')))"
  unfolding cancel_charging_session_def
  by (subst cancel_loop_char[of st "[]" _ 0]) (auto simp: http_codes split: option.splits)

section \<open>The lifecycle endpoints as transitions\<close>

lemma start_char:
  "start_charging_session u1 u2 sid st =
     (case find_session (mock_sessions_db st) sid of
        None \<Rightarrow> (st, Inl (HTTPException 404 ''Session not found.''))
      | Some session \<Rightarrow>
          if status session \<noteq> ''reserved''
          then (st, Inl (HTTPException 400 ''Session is not in 'reserved' status.''))
          else (transition st sid session
                  (session\<lparr>status := ''in_progress'', start_time := u1, updated_at := u2\<rparr>)
                  ''occupied'',
                Inr (session\<lparr>status := ''in_progress'', start_time := u1, updated_at := u2\<rparr>)))"
  by (simp add: start_charging_session_def transition_def Let_def http_codes split: option.splits)

lemma end_char:
  "end_charging_session u1 u2 sid kwh c st =
     (case find_session (mock_sessions_db st) sid of
        None \<Rightarrow> (st, Inl (HTTPException 404 ''Session not found.''))
      | Some session \<Rightarrow>
          if status session \<noteq> ''in_progress''
          then (st, Inl (HTTPException 400 ''Session is not in 'in_progress' status.''))
          else (transition st sid session
                  (session\<lparr>status := ''completed'', actual_end_time := Some u1,
                     kwh_consumed := Some kwh, cost := Some c, updated_at := u2\<rparr>)
                  ''available'',
                Inr (session\<lparr>status := ''completed'', actual_end_time := Some u1,
                     kwh_consumed := Some kwh, cost := Some c, updated_at := u2\<rparr>)))"
  by (simp add: end_charging_session_def transition_def Let_def http_codes split: option.splits)

lemma cancel_char:
  "cancel_charging_session u sid st =
     (case find_session (mock_sessions_db st) sid of
        None \<Rightarrow> (st, Inl (HTTPException 404 ''Session not found.''))
      | Some session \<Rightarrow>
          if status session \<noteq> ''reserved''
          then (st, Inl (HTTPException 400
                  ''Only 'reserved' sessions can be cancelled via this endpoint.''))
          else (transition st sid session
                  (session\<lparr>status := ''cancelled'', updated_at := u\<rparr>) ''available'',
                Inr ()))"
  by (simp add: cancel_charging_session_char transition_def split: option.splits)

subsection \<open>Transitions preserve the invariants\<close>

lemma connector_status_of_transition:
  "connector_status_of (transition st sid old new v) sid' cid' =
     (if sid' = station_id old \<and> cid' = connector_id old
      then map_option (\<lambda>_. v) (connector_status_of st sid' cid')
      else connector_status_of st sid' cid')"
  by (simp add: connector_status_of_def transition_def lookup_connector_set_connector_status
        option.map_comp comp_def)

lemma lookup_connector_transition_None:
  "lookup_connector (mock_stations_db (transition st sid old new v)) sid' cid' = None \<longleftrightarrow>
   lookup_connector (mock_stations_db st) sid' cid' = None"
  by (simp add: transition_def lookup_connector_set_connector_status)

lemma mock_sessions_db_transition:
  "mock_sessions_db (transition st sid old new v) = replace_session (mock_sessions_db st) sid new"
  by (simp add: transition_def)

lemma transition_resolves:
  assumes "inv_resolves st" "find_session (mock_sessions_db st) sid = Some old"
    "station_id new = station_id old" "connector_id new = connector_id old"
  shows "inv_resolves (transition st sid old new v)"
proof -
  have old: "old \<in> set (mock_sessions_db st)" using assms(2) find_session_Some by blast
  show ?thesis
    unfolding inv_resolves_def lookup_connector_transition_None mock_sessions_db_transition
  proof
    fix s assume "s \<in> set (replace_session (mock_sessions_db st) sid new)"
    then have "s = new \<or> s \<in> set (mock_sessions_db st)"
      using set_replace_session by blast
    then show "lookup_connector (mock_stations_db st) (station_id s) (connector_id s) \<noteq> None"
      using assms(1,3,4) old unfolding inv_resolves_def by auto
  qed
qed

lemma sessions_on_transition_other:
  assumes "find_session (mock_sessions_db st) sid = Some old"
    "station_id new = station_id old" "connector_id new = connector_id old"
    "\<not> (sid' = station_id old \<and> cid' = connector_id old)"
  shows "sessions_on (transition st sid old new v) sid' cid' = sessions_on st sid' cid'"
  unfolding sessions_on_def mock_sessions_db_transition
  by (rule filter_replace_neither[OF assms(1)]) (use assms in auto)

lemma transition_active_keep:
  assumes inv: "inv_active st" and f: "find_session (mock_sessions_db st) sid = Some old"
    and same: "station_id new = station_id old" "connector_id new = connector_id old"
    and nt: "non_terminal old = non_terminal new" and v: "v \<noteq> ''available''"
  shows "inv_active (transition st sid old new v)"
  unfolding inv_active_def
proof (intro allI)
  fix sid' cid'
  show "length (sessions_on (transition st sid old new v) sid' cid') \<le> 1 \<and>
        (connector_status_of (transition st sid old new v) sid' cid' = Some ''available'' \<longrightarrow>
         sessions_on (transition st sid old new v) sid' cid' = [])"
  proof (cases "sid' = station_id old \<and> cid' = connector_id old")
    case True
    have "length (sessions_on (transition st sid old new v) sid' cid') = length (sessions_on st sid' cid')"
      unfolding sessions_on_def mock_sessions_db_transition
      by (rule filter_replace_same[OF f]) (use same nt in auto)
    moreover have "connector_status_of (transition st sid old new v) sid' cid' \<noteq> Some ''available''"
      using True v by (auto simp: connector_status_of_transition)
    ultimately show ?thesis using inv unfolding inv_active_def by simp
  next
    case False
    then have "connector_status_of (transition st sid old new v) sid' cid' =
        connector_status_of st sid' cid'"
      by (auto simp: connector_status_of_transition)
    then show ?thesis
      using inv sessions_on_transition_other[OF f same False]
      unfolding inv_active_def by simp
  qed
qed

lemma transition_active_drop:
  assumes inv: "inv_active st" and f: "find_session (mock_sessions_db st) sid = Some old"
    and same: "station_id new = station_id old" "connector_id new = connector_id old"
    and nt: "non_terminal old" "\<not> non_terminal new"
  shows "inv_active (transition st sid old new v)"
  unfolding inv_active_def
proof (intro allI)
  fix sid' cid'
  show "length (sessions_on (transition st sid old new v) sid' cid') \<le> 1 \<and>
        (connector_status_of (transition st sid old new v) sid' cid' = Some ''available'' \<longrightarrow>
         sessions_on (transition st sid old new v) sid' cid' = [])"
  proof (cases "sid' = station_id old \<and> cid' = connector_id old")
    case True
    have "Suc (length (sessions_on (transition st sid old new v) sid' cid')) = length (sessions_on st sid' cid')"
      unfolding sessions_on_def mock_sessions_db_transition
      by (rule filter_replace_drop[OF f]) (use same nt True in auto)
    moreover have "length (sessions_on st sid' cid') \<le> 1"
      using inv unfolding inv_active_def by simp
    ultimately have "length (sessions_on (transition st sid old new v) sid' cid') = 0"
      by linarith
    then show ?thesis by simp
  next
    case False
    then have "connector_status_of (transition st sid old new v) sid' cid' =
        connector_status_of st sid' cid'"
      by (auto simp: connector_status_of_transition)
    then show ?thesis
      using inv sessions_on_transition_other[OF f same False]
      unfolding inv_active_def by simp
  qed
qed

section \<open>Reserve preserves the invariants\<close>

lemma checks_pass_naive:
  assumes "checks_pass now req st"
  obtains s e where "start_time req = Naive s" "expected_end_time req = Naive e"
    "now < e" "s < e"
    "connector_status_of st (station_id req) (connector_id req) = Some ''available''"
    "check_connector_availability (mock_sessions_db st) (station_id req) (connector_id req) s e"
  using assms by (auto simp: checks_pass_def split: datetime.splits)

lemma create_success:
  "checks_pass now req st \<Longrightarrow> start_time req = Naive s \<Longrightarrow> expected_end_time req = Naive e \<Longrightarrow>
   create_charging_session now uid u1 u2 req st =
     (commit_reservation st (new_reservation uid u1 u2 req s e),
      Inr (new_reservation uid u1 u2 req s e))"
  by (auto simp: checks_pass_def create_charging_session_def connector_status_of_def
        lookup_connector_def commit_reservation_def new_reservation_def Let_def
        split: option.splits)

lemma create_failure:
  "\<not> checks_pass now req st \<Longrightarrow>
   fst (create_charging_session now uid u1 u2 req st) = st \<and>
   isl (snd (create_charging_session now uid u1 u2 req st))"
  by (auto simp: checks_pass_def create_charging_session_def connector_status_of_def
        lookup_connector_def Let_def split: option.splits datetime.splits)

lemma connector_status_of_commit:
  "connector_status_of (commit_reservation st new) sid' cid' =
     (if sid' = station_id new \<and> cid' = connector_id new
      then map_option (\<lambda>_. ''reserved'') (connector_status_of st sid' cid')
      else connector_status_of st sid' cid')"
  by (simp add: connector_status_of_def commit_reservation_def lookup_connector_set_connector_status
        option.map_comp comp_def)

lemma sessions_on_commit:
  "sessions_on (commit_reservation st new) sid' cid' =
     sessions_on st sid' cid' @
       (if station_id new = sid' \<and> connector_id new = cid' \<and> non_terminal new then [new] else [])"
  by (simp add: sessions_on_def commit_reservation_def)

lemma commit_resolves:
  assumes "inv_resolves st"
    "lookup_connector (mock_stations_db st) (station_id new) (connector_id new) \<noteq> None"
  shows "inv_resolves (commit_reservation st new)"
  using assms
  by (auto simp: inv_resolves_def commit_reservation_def lookup_connector_set_connector_status)

lemma commit_active:
  assumes inv: "inv_active st"
    and av: "connector_status_of st (station_id new) (connector_id new) = Some ''available''"
  shows "inv_active (commit_reservation st new)"
  unfolding inv_active_def
proof (intro allI)
  fix sid' cid'
  show "length (sessions_on (commit_reservation st new) sid' cid') \<le> 1 \<and>
        (connector_status_of (commit_reservation st new) sid' cid' = Some ''available'' \<longrightarrow>
         sessions_on (commit_reservation st new) sid' cid' = [])"
  proof (cases "sid' = station_id new \<and> cid' = connector_id new")
    case True
    then have "sessions_on st sid' cid' = []"
      using inv av unfolding inv_active_def by blast
    moreover have "connector_status_of (commit_reservation st new) sid' cid' \<noteq> Some ''available''"
      using True av by (simp add: connector_status_of_commit)
    ultimately show ?thesis by (simp add: sessions_on_commit)
  next
    case False
    then have "connector_status_of (commit_reservation st new) sid' cid' =
        connector_status_of st sid' cid'"
      by (auto simp: connector_status_of_commit)
    moreover have "sessions_on (commit_reservation st new) sid' cid' = sessions_on st sid' cid'"
      using False by (auto simp: sessions_on_commit)
    ultimately show ?thesis using inv unfolding inv_active_def by simp
  qed
qed

lemma reserve_preserves:
  assumes "inv_resolves st \<and> inv_active st"
  shows "inv_resolves (fst (create_charging_session now uid u1 u2 req st)) \<and>
         inv_active (fst (create_charging_session now uid u1 u2 req st))"
proof (cases "checks_pass now req st")
  case True
  from checks_pass_naive[OF True] obtain s e where
    se: "start_time req = Naive s" "expected_end_time req = Naive e"
    and avail: "connector_status_of st (station_id req) (connector_id req) = Some ''available''"
    by blast
  let ?new = "new_reservation uid u1 u2 req s e"
  from avail have av: "connector_status_of st (station_id ?new) (connector_id ?new) =
      Some ''available''"
    by (simp add: new_reservation_def)
  then have "lookup_connector (mock_stations_db st) (station_id ?new) (connector_id ?new) \<noteq> None"
    by (auto simp: connector_status_of_def)
  with assms av show ?thesis
    by (simp add: create_success[OF True se] commit_resolves commit_active)
next
  case False
  with assms show ?thesis by (simp add: create_failure)
qed

lemma start_preserves:
  assumes "inv_resolves st \<and> inv_active st"
  shows "inv_resolves (fst (start_charging_session u1 u2 sid st)) \<and>
         inv_active (fst (start_charging_session u1 u2 sid st))"
  using assms
  by (auto simp: start_char non_terminal_def split: option.splits
        intro!: transition_resolves transition_active_keep)

lemma end_preserves:
  assumes "inv_resolves st \<and> inv_active st"
  shows "inv_resolves (fst (end_charging_session u1 u2 sid kwh c st)) \<and>
         inv_active (fst (end_charging_session u1 u2 sid kwh c st))"
  using assms
  by (auto simp: end_char non_terminal_def split: option.splits
        intro!: transition_resolves transition_active_drop)

lemma cancel_preserves:
  assumes "inv_resolves st \<and> inv_active st"
  shows "inv_resolves (fst (cancel_charging_session u sid st)) \<and>
         inv_active (fst (cancel_charging_session u sid st))"
  using assms
  by (auto simp: cancel_char non_terminal_def split: option.splits
        intro!: transition_resolves transition_active_drop)

section \<open>Every reachable state satisfies the invariants\<close>

lemma reachable_inv: "reachable st \<Longrightarrow> inv_resolves st \<and> inv_active st"
proof (induction rule: reachable.induct)
  case reach_init
  show ?case
    by (simp add: inv_resolves_def inv_active_def initial_state_def sessions_on_def)
next
  case (reach_reserve st now new_session_id utc_created utc_updated session_data)
  then show ?case by (intro reserve_preserves)
next
  case (reach_start st utc_start utc_updated sid)
  then show ?case by (intro start_preserves)
next
  case (reach_end st utc_end utc_updated sid kwh c)
  then show ?case by (intro end_preserves)
next
  case (reach_cancel st utc_updated sid)
  then show ?case by (intro cancel_preserves)
qed

section \<open>The sample run, evaluated\<close>

lemmas ex_defs = ex_request_def ex_session_def initial_state_def initial_stations_def
  create_charging_session_def find_station_def find_connector_def find_session_def Let_def http_codes

lemma ex_reserved_eq: "ex_reserved =
  \<lparr>mock_stations_db = set_connector_status initial_stations ''STN-001'' ''C-001-1'' ''reserved'',
   mock_sessions_db = [ex_session]\<rparr>"
  unfolding ex_reserved_def by (simp add: ex_defs)

lemma ex_reserved_reachable: "reachable ex_reserved"
  unfolding ex_reserved_def by (rule reach_reserve[OF reach_init])

lemma ex_cancelled_eq: "ex_cancelled =
  \<lparr>mock_stations_db = initial_stations,
   mock_sessions_db = [ex_session\<lparr>status := ''cancelled'', updated_at := 550\<rparr>]\<rparr>"
  unfolding ex_cancelled_def
  by (simp add: cancel_char transition_def ex_reserved_eq find_session_def ex_session_def
        initial_stations_def)

lemma ex_started_eq: "ex_started =
  \<lparr>mock_stations_db = set_connector_status initial_stations ''STN-001'' ''C-001-1'' ''occupied'',
   mock_sessions_db = [ex_session\<lparr>status := ''in_progress'', start_time := 601, updated_at := 602\<rparr>]\<rparr>"
  unfolding ex_started_def
  by (simp add: start_char transition_def ex_reserved_eq find_session_def ex_session_def
        initial_stations_def)

lemma ex_cancelled_reachable: "reachable ex_cancelled"
  unfolding ex_cancelled_def by (rule reach_cancel[OF ex_reserved_reachable])

lemma ex_started_reachable: "reachable ex_started"
  unfolding ex_started_def by (rule reach_start[OF ex_reserved_reachable])

lemma ex_late_reachable: "reachable ex_late"
  unfolding ex_late_def by (rule reach_start[OF ex_reserved_reachable])

lemma ex_late_sessions: "mock_sessions_db ex_late = [ex_late_session]"
  unfolding ex_late_def ex_late_session_def
  by (simp add: start_char transition_def ex_reserved_eq find_session_def ex_session_def)

section \<open>C1: the availability check\<close>

text \<open>
  Claim C1. For every ledger, every pair of station id and connector id and every window
  from \<open>start_t\<close> to \<open>end_t\<close>, the availability check returns False if and only if
  some session of the ledger for exactly that pair, with status \<open>reserved\<close> or
  \<open>in_progress\<close>, has a window from \<open>start_time\<close> to \<open>expected_end_time\<close> that
  overlaps the requested one, where two windows do not overlap exactly when the requested
  one ends at or before the other starts, or starts at or after the other ends. The check
  is a function of the ledger and its four arguments whose only result is the Boolean: it
  writes nothing.
\<close>

theorem availability_false_iff_overlap:
  "check_connector_availability db sid cid start_t end_t = False \<longleftrightarrow>
     (\<exists>s \<in> set db. station_id s = sid \<and> connector_id s = cid \<and>
        (status s = ''reserved'' \<or> status s = ''in_progress'') \<and>
        \<not> (end_t \<le> start_time s \<or> start_t \<ge> expected_end_time s))"
  by (auto simp: check_connector_availability_iff)

text \<open>
  On the ledger of the sample run, a window that cuts into the reserved one is refused, a
  window that starts exactly where the reserved one ends is free, and so is the same
  window on the neighbouring connector.
\<close>

theorem availability_false_iff_overlap_witness:
  "check_connector_availability [ex_session] ''STN-001'' ''C-001-1'' 630 690 = False \<and>
   check_connector_availability [ex_session] ''STN-001'' ''C-001-1'' 660 720 = True \<and>
   check_connector_availability [ex_session] ''STN-001'' ''C-001-2'' 630 690 = True"
  using availability_false_iff_overlap[of "[ex_session]" "''STN-001''" "''C-001-1''" 630 690]
    availability_false_iff_overlap[of "[ex_session]" "''STN-001''" "''C-001-1''" 660 720]
    availability_false_iff_overlap[of "[ex_session]" "''STN-001''" "''C-001-2''" 630 690]
  by (simp add: ex_session_def)

section \<open>C2: the order of the validation checks of reserve\<close>

text \<open>
  Claim C2 says that for every reserve request the six checks run in a fixed order and the
  first failing one decides the error, beginning with: an expected end time that is not
  strictly after the current time gives 400 (InvalidWindow). The code does not do this
  for a request whose expected end time carries a time zone: the comparison with the naive
  \<open>datetime.now()\<close> raises \<open>TypeError\<close>, which is none of the six errors. In the
  sample store, a request arriving at time 700 for a window that ended at the instant 660
  UTC raises it, and so does a request arriving at time 500 whose start time is the
  instant 660 UTC and whose naive expected end time is 660.
\<close>

theorem reserve_aware_timestamp_raises:
  "create_charging_session 700 ''s2'' 701 702
       (ex_request\<lparr>expected_end_time := Aware 660 0\<rparr>) ex_reserved =
     (ex_reserved, Inl TypeError)
   \<and> create_charging_session 500 ''s2'' 501 502
       (ex_request\<lparr>start_time := Aware 660 0\<rparr>) ex_reserved =
     (ex_reserved, Inl TypeError)"
  by (simp add: create_charging_session_def ex_request_def)

text \<open>
  The same holds in every store: an aware expected end time raises at the first
  comparison, and an aware start time raises at the second whenever the first comparison
  lets the request through. The store is returned as it was.
\<close>

lemma reserve_aware_raises:
  "expected_end_time req = Aware u off \<Longrightarrow>
     create_charging_session now uid u1 u2 req st = (st, Inl TypeError)"
  "expected_end_time req = Naive e \<Longrightarrow> now < e \<Longrightarrow> start_time req = Aware u off \<Longrightarrow>
     create_charging_session now uid u1 u2 req st = (st, Inl TypeError)"
  by (simp_all add: create_charging_session_def)

text \<open>
  On requests whose timestamps are naive the checks behave as the claim says: (1) a
  window that does not end strictly after the current time gives 400 (InvalidWindow),
  whatever the start time is; (2) otherwise a window that does not start strictly before
  it ends gives 400 (InvalidWindow); (3) otherwise an unknown station gives 404
  (NotFound); (4) otherwise a connector unknown at that station gives 404 (NotFound);
  (5) otherwise a connector whose status is not \<open>available\<close> gives 409 (Conflict);
  (6) otherwise an overlap reported by the availability check gives 409 (Conflict). Each
  of the six errors has its own detail message, the first failing check decides whatever
  the later ones would say, and in each case the store is returned as it was.
\<close>

theorem reserve_validation_order:
  "(\<forall>e. expected_end_time req = Naive e \<and> e \<le> now \<longrightarrow>
      create_charging_session now uid u1 u2 req st =
        (st, Inl (HTTPException 400 ''Cannot reserve a session in the past.'')))
   \<and> (\<forall>s e. expected_end_time req = Naive e \<and> start_time req = Naive s \<and>
      now < e \<and> e \<le> s \<longrightarrow>
      create_charging_session now uid u1 u2 req st =
        (st, Inl (HTTPException 400 ''Start time must be before end time.'')))
   \<and> (\<forall>s e. expected_end_time req = Naive e \<and> start_time req = Naive s \<and>
      now < e \<and> s < e \<and>
      (\<forall>x \<in> set (mock_stations_db st). ChargingStation.station_id x \<noteq> station_id req) \<longrightarrow>
      create_charging_session now uid u1 u2 req st =
        (st, Inl (HTTPException 404
           (''Charging station with ID '' @ [CHR 0x27] @ station_id req @ ''' not found.''))))
   \<and> (\<forall>s e ts. expected_end_time req = Naive e \<and> start_time req = Naive s \<and>
      now < e \<and> s < e \<and>
      find_station (mock_stations_db st) (station_id req) = Some ts \<and>
      (\<forall>c \<in> set (connectors ts). Connector.connector_id c \<noteq> connector_id req) \<longrightarrow>
      create_charging_session now uid u1 u2 req st =
        (st, Inl (HTTPException 404
           (''Connector with ID '' @ [CHR 0x27] @ connector_id req @ ''' not found at station ''
              @ [CHR 0x27] @ station_id req @ '''.''))))
   \<and> (\<forall>s e tc. expected_end_time req = Naive e \<and> start_time req = Naive s \<and>
      now < e \<and> s < e \<and>
      lookup_connector (mock_stations_db st) (station_id req) (connector_id req) = Some tc \<and>
      Connector.status tc \<noteq> ''available'' \<longrightarrow>
      create_charging_session now uid u1 u2 req st =
        (st, Inl (HTTPException 409
           (''Connector '' @ connector_id req @ '' is currently '' @ Connector.status tc @ ''.''))))
   \<and> (\<forall>s e tc. expected_end_time req = Naive e \<and> start_time req = Naive s \<and>
      now < e \<and> s < e \<and>
      lookup_connector (mock_stations_db st) (station_id req) (connector_id req) = Some tc \<and>
      Connector.status tc = ''available'' \<and>
      check_connector_availability (mock_sessions_db st) (station_id req) (connector_id req)
        s e = False \<longrightarrow>
      create_charging_session now uid u1 u2 req st =
        (st, Inl (HTTPException 409
           (''Connector '' @ connector_id req @ '' at '' @ station_id req
              @ '' is not available during the requested time.''))))"
proof -
  have none_station: "find_station sts sid = None \<longleftrightarrow>
      (\<forall>s \<in> set sts. ChargingStation.station_id s \<noteq> sid)" for sts sid
    by (induction sts) (auto simp: find_station_def)
  have none_connector: "find_connector cs cid = None \<longleftrightarrow>
      (\<forall>c \<in> set cs. Connector.connector_id c \<noteq> cid)" for cs cid
    by (induction cs) (auto simp: find_connector_def)
  show ?thesis
    by (auto simp: create_charging_session_def http_codes lookup_connector_def
          none_station[symmetric] none_connector[symmetric]
          split: option.splits datetime.splits)
qed

text \<open>
  One request per check, each chosen so that a later check would fail as well: a window in
  the past on a reserved connector, an empty window at an unknown station, an unknown
  station with an unknown connector, an unknown connector, a reserved connector with an
  overlapping window, and an overlapping window on a connector that reads
  \<open>available\<close>.
\<close>

theorem reserve_validation_order_witness:
  "create_charging_session 700 ''s2'' 701 702 ex_request ex_reserved =
     (ex_reserved, Inl (HTTPException 400 ''Cannot reserve a session in the past.''))
   \<and> create_charging_session 500 ''s2'' 501 502
        (ex_request\<lparr>station_id := ''STN-999'', start_time := Naive 660\<rparr>) initial_state =
     (initial_state, Inl (HTTPException 400 ''Start time must be before end time.''))
   \<and> create_charging_session 500 ''s2'' 501 502
        (ex_request\<lparr>station_id := ''STN-999'', connector_id := ''C-999''\<rparr>) initial_state =
     (initial_state, Inl (HTTPException 404 ''Charging station with ID 'STN-999' not found.''))
   \<and> create_charging_session 500 ''s2'' 501 502
        (ex_request\<lparr>connector_id := ''C-999''\<rparr>) ex_reserved =
     (ex_reserved, Inl (HTTPException 404
        ''Connector with ID 'C-999' not found at station 'STN-001'.''))
   \<and> create_charging_session 500 ''s2'' 501 502
        (ex_request\<lparr>start_time := Naive 630, expected_end_time := Naive 690\<rparr>) ex_reserved =
     (ex_reserved, Inl (HTTPException 409 ''Connector C-001-1 is currently reserved.''))
   \<and> create_charging_session 500 ''s2'' 501 502
        (ex_request\<lparr>start_time := Naive 630, expected_end_time := Naive 690\<rparr>) ex_unbooked =
     (ex_unbooked, Inl (HTTPException 409
        ''Connector C-001-1 at STN-001 is not available during the requested time.''))"
proof -
  let ?c1 = "\<lparr>Connector.connector_id = ''C-001-1'', type = ''CCS1'', power_kw = 50.0,
               Connector.status = ''available''\<rparr>"
  have stn: "find_station (mock_stations_db ex_reserved) ''STN-001'' =
      Some (hd (mock_stations_db ex_reserved))"
    by (simp add: ex_reserved_eq initial_stations_def find_station_def)
  have c5: "lookup_connector (mock_stations_db ex_reserved) ''STN-001'' ''C-001-1'' =
      Some (?c1\<lparr>Connector.status := ''reserved''\<rparr>)"
    by (simp add: ex_reserved_eq initial_stations_def lookup_connector_def find_station_def
          find_connector_def)
  have c6: "lookup_connector (mock_stations_db ex_unbooked) ''STN-001'' ''C-001-1'' = Some ?c1"
    by (simp add: ex_unbooked_def initial_stations_def lookup_connector_def find_station_def
          find_connector_def)
  note v = reserve_validation_order
  from v[of ex_request 700 "''s2''" 701 702 ex_reserved]
  have 1: "create_charging_session 700 ''s2'' 701 702 ex_request ex_reserved =
     (ex_reserved, Inl (HTTPException 400 ''Cannot reserve a session in the past.''))"
    by (simp add: ex_request_def)
  from v[of "ex_request\<lparr>station_id := ''STN-999'', start_time := Naive 660\<rparr>" 500 "''s2''" 501 502
        initial_state]
  have 2: "create_charging_session 500 ''s2'' 501 502
        (ex_request\<lparr>station_id := ''STN-999'', start_time := Naive 660\<rparr>) initial_state =
     (initial_state, Inl (HTTPException 400 ''Start time must be before end time.''))"
    by (simp add: ex_request_def)
  from v[of "ex_request\<lparr>station_id := ''STN-999'', connector_id := ''C-999''\<rparr>" 500 "''s2''"
        501 502 initial_state]
  have 3: "create_charging_session 500 ''s2'' 501 502
        (ex_request\<lparr>station_id := ''STN-999'', connector_id := ''C-999''\<rparr>) initial_state =
     (initial_state, Inl (HTTPException 404 ''Charging station with ID 'STN-999' not found.''))"
    by (simp add: ex_request_def initial_state_def initial_stations_def)
  from v[of "ex_request\<lparr>connector_id := ''C-999''\<rparr>" 500 "''s2''" 501 502 ex_reserved] stn
  have 4: "create_charging_session 500 ''s2'' 501 502
        (ex_request\<lparr>connector_id := ''C-999''\<rparr>) ex_reserved =
     (ex_reserved, Inl (HTTPException 404
        ''Connector with ID 'C-999' not found at station 'STN-001'.''))"
    by (simp add: ex_request_def ex_reserved_eq initial_stations_def)
  from v[of "ex_request\<lparr>start_time := Naive 630, expected_end_time := Naive 690\<rparr>" 500 "''s2''"
        501 502 ex_reserved] c5
  have 5: "create_charging_session 500 ''s2'' 501 502
        (ex_request\<lparr>start_time := Naive 630, expected_end_time := Naive 690\<rparr>) ex_reserved =
     (ex_reserved, Inl (HTTPException 409 ''Connector C-001-1 is currently reserved.''))"
    by (simp add: ex_request_def)
  from v[of "ex_request\<lparr>start_time := Naive 630, expected_end_time := Naive 690\<rparr>" 500 "''s2''"
        501 502 ex_unbooked] c6
  have 6: "create_charging_session 500 ''s2'' 501 502
        (ex_request\<lparr>start_time := Naive 630, expected_end_time := Naive 690\<rparr>) ex_unbooked =
     (ex_unbooked, Inl (HTTPException 409
        ''Connector C-001-1 at STN-001 is not available during the requested time.''))"
    by (simp add: ex_request_def ex_unbooked_def ex_session_def)
  from 1 2 3 4 5 6 show ?thesis by blast
qed

section \<open>C3: what a successful reserve does\<close>





section \<open>C4: rejected lifecycle calls\<close>

text \<open>
  Claim C4. When no session of the ledger has the id, start, end and cancel each fail
  with 404 (NotFound). When the session with the id (the first one, which is the one each
  endpoint looks up) has a status other than \<open>reserved\<close>, start fails with 400
  (InvalidTransition) and so does cancel; when its status is other than
  \<open>in_progress\<close>, end fails with 400 (InvalidTransition). After a successful cancel,
  a second cancel of the same id fails with 400 (InvalidTransition) and leaves the store
  exactly as the first cancel left it. Every one of these failures returns the store
  unchanged.
\<close>

theorem lifecycle_rejections:
  "((\<forall>s \<in> set (mock_sessions_db st). session_id s \<noteq> sid) \<longrightarrow>
      start_charging_session u1 u2 sid st =
        (st, Inl (HTTPException 404 ''Session not found.'')) \<and>
      end_charging_session u1 u2 sid kwh c st =
        (st, Inl (HTTPException 404 ''Session not found.'')) \<and>
      cancel_charging_session u1 sid st =
        (st, Inl (HTTPException 404 ''Session not found.'')))
   \<and> (\<forall>s. find_session (mock_sessions_db st) sid = Some s \<and> status s \<noteq> ''reserved'' \<longrightarrow>
      start_charging_session u1 u2 sid st =
        (st, Inl (HTTPException 400 ''Session is not in 'reserved' status.'')) \<and>
      cancel_charging_session u1 sid st =
        (st, Inl (HTTPException 400
           ''Only 'reserved' sessions can be cancelled via this endpoint.'')))
   \<and> (\<forall>s. find_session (mock_sessions_db st) sid = Some s \<and> status s \<noteq> ''in_progress'' \<longrightarrow>
      end_charging_session u1 u2 sid kwh c st =
        (st, Inl (HTTPException 400 ''Session is not in 'in_progress' status.'')))
   \<and> (snd (cancel_charging_session u1 sid st) = Inr () \<longrightarrow>
      cancel_charging_session u2 sid (fst (cancel_charging_session u1 sid st)) =
        (fst (cancel_charging_session u1 sid st),
         Inl (HTTPException 400
           ''Only 'reserved' sessions can be cancelled via this endpoint.'')))"
proof -
  have twice: "cancel_charging_session u2 sid (fst (cancel_charging_session u1 sid st)) =
        (fst (cancel_charging_session u1 sid st),
         Inl (HTTPException 400
           ''Only 'reserved' sessions can be cancelled via this endpoint.''))"
    if ok: "snd (cancel_charging_session u1 sid st) = Inr ()"
  proof -
    from ok obtain s where s: "find_session (mock_sessions_db st) sid = Some s"
        "status s = ''reserved''"
      by (auto simp: cancel_char split: option.splits if_splits)
    let ?new = "s\<lparr>status := ''cancelled'', updated_at := u1\<rparr>"
    have id: "session_id ?new = sid" using find_session_Some[OF s(1)] by simp
    have fst: "fst (cancel_charging_session u1 sid st) = transition st sid s ?new ''available''"
      using s by (simp add: cancel_char)
    have "find_session (mock_sessions_db (transition st sid s ?new ''available'')) sid = Some ?new"
      using s(1) by (simp add: mock_sessions_db_transition find_session_replace[OF id])
    then show ?thesis
      unfolding fst by (simp add: cancel_char)
  qed
  show ?thesis
    using twice
    by (auto simp: start_char end_char cancel_char find_session_None[symmetric]
          split: option.splits)
qed

text \<open>
  On the sample run: starting an unknown id, starting and cancelling a session already in
  progress, ending a session that was never started, and cancelling twice.
\<close>

theorem lifecycle_rejections_witness:
  "start_charging_session 601 602 ''nope'' ex_reserved =
     (ex_reserved, Inl (HTTPException 404 ''Session not found.''))
   \<and> start_charging_session 603 604 ''s1'' ex_started =
     (ex_started, Inl (HTTPException 400 ''Session is not in 'reserved' status.''))
   \<and> cancel_charging_session 603 ''s1'' ex_started =
     (ex_started, Inl (HTTPException 400
        ''Only 'reserved' sessions can be cancelled via this endpoint.''))
   \<and> end_charging_session 601 602 ''s1'' 12.5 4.3 ex_reserved =
     (ex_reserved, Inl (HTTPException 400 ''Session is not in 'in_progress' status.''))
   \<and> snd (cancel_charging_session 550 ''s1'' ex_reserved) = Inr ()
   \<and> cancel_charging_session 560 ''s1'' ex_cancelled =
     (ex_cancelled, Inl (HTTPException 400
        ''Only 'reserved' sessions can be cancelled via this endpoint.''))"
proof -
  note r = lifecycle_rejections
  have f1: "find_session (mock_sessions_db ex_started) ''s1'' =
      Some (ex_session\<lparr>status := ''in_progress'', start_time := 601, updated_at := 602\<rparr>)"
    by (simp add: ex_started_eq find_session_def ex_session_def)
  have f2: "find_session (mock_sessions_db ex_reserved) ''s1'' = Some ex_session"
    by (simp add: ex_reserved_eq find_session_def ex_session_def)
  have ok: "snd (cancel_charging_session 550 ''s1'' ex_reserved) = Inr ()"
    using f2 by (simp add: cancel_char ex_session_def)
  from r[of ex_reserved "''nope''" 601 602 "12.5" "4.3"]
  have 1: "start_charging_session 601 602 ''nope'' ex_reserved =
     (ex_reserved, Inl (HTTPException 404 ''Session not found.''))"
    by (simp add: ex_reserved_eq ex_session_def)
  from r[of ex_started "''s1''" 603 604 0 0] f1
  have 2: "start_charging_session 603 604 ''s1'' ex_started =
     (ex_started, Inl (HTTPException 400 ''Session is not in 'reserved' status.''))
   \<and> cancel_charging_session 603 ''s1'' ex_started =
     (ex_started, Inl (HTTPException 400
        ''Only 'reserved' sessions can be cancelled via this endpoint.''))"
    by (simp add: ex_session_def)
  from r[of ex_reserved "''s1''" 601 602 "12.5" "4.3"] f2
  have 3: "end_charging_session 601 602 ''s1'' 12.5 4.3 ex_reserved =
     (ex_reserved, Inl (HTTPException 400 ''Session is not in 'in_progress' status.''))"
    by (simp add: ex_session_def)
  from r[of ex_reserved "''s1''" 550 560 0 0] ok
  have 4: "cancel_charging_session 560 ''s1'' ex_cancelled =
     (ex_cancelled, Inl (HTTPException 400
        ''Only 'reserved' sessions can be cancelled via this endpoint.''))"
    by (simp add: ex_cancelled_def)
  from 1 2 3 4 ok show ?thesis by blast
qed

section \<open>C5: session and connector change in lockstep\<close>

lemma resolves_status:
  assumes "inv_resolves st" "find_session (mock_sessions_db st) sid = Some old"
  shows "\<exists>z. connector_status_of st (station_id old) (connector_id old) = Some z"
  using assms find_session_Some[OF assms(2)]
  by (auto simp: inv_resolves_def connector_status_of_def)

lemma transition_lockstep:
  assumes "inv_resolves st" "find_session (mock_sessions_db st) sid = Some old"
    "session_id new = sid"
  shows "find_session (mock_sessions_db (transition st sid old new v)) sid = Some new \<and>
         connector_status_of (transition st sid old new v) (station_id old) (connector_id old) =
           Some v"
  using resolves_status[OF assms(1,2)] assms(2)
  by (auto simp: mock_sessions_db_transition find_session_replace[OF assms(3)]
        connector_status_of_transition)

text \<open>
  Claim C5. In every reachable state, a successful reserve returns a session with status
  \<open>reserved\<close>, appended to the ledger, and leaves the connector it references
  \<open>reserved\<close>; a successful start leaves the session \<open>in_progress\<close> and its
  connector \<open>occupied\<close>; a successful end leaves the session \<open>completed\<close> and its
  connector \<open>available\<close>; a successful cancel leaves the session \<open>cancelled\<close> and
  its connector \<open>available\<close>. The session and the connector are read from the store
  the same call returns.
\<close>

theorem lockstep_status:
  assumes "reachable st"
  shows
  "(\<forall>session. snd (create_charging_session now uid u1 u2 req st) = Inr session \<longrightarrow>
      status session = ''reserved'' \<and>
      mock_sessions_db (fst (create_charging_session now uid u1 u2 req st)) =
        mock_sessions_db st @ [session] \<and>
      connector_status_of (fst (create_charging_session now uid u1 u2 req st))
        (station_id session) (connector_id session) = Some ''reserved'')
   \<and> (\<forall>session. snd (start_charging_session u1 u2 sid st) = Inr session \<longrightarrow>
      status session = ''in_progress'' \<and>
      find_session (mock_sessions_db (fst (start_charging_session u1 u2 sid st))) sid =
        Some session \<and>
      connector_status_of (fst (start_charging_session u1 u2 sid st))
        (station_id session) (connector_id session) = Some ''occupied'')
   \<and> (\<forall>session. snd (end_charging_session u1 u2 sid kwh c st) = Inr session \<longrightarrow>
      status session = ''completed'' \<and>
      find_session (mock_sessions_db (fst (end_charging_session u1 u2 sid kwh c st))) sid =
        Some session \<and>
      connector_status_of (fst (end_charging_session u1 u2 sid kwh c st))
        (station_id session) (connector_id session) = Some ''available'')
   \<and> (snd (cancel_charging_session u1 sid st) = Inr () \<longrightarrow>
      (\<exists>session. status session = ''cancelled'' \<and>
         find_session (mock_sessions_db (fst (cancel_charging_session u1 sid st))) sid =
           Some session \<and>
         connector_status_of (fst (cancel_charging_session u1 sid st))
           (station_id session) (connector_id session) = Some ''available''))"
proof -
  from reachable_inv[OF assms] have res: "inv_resolves st" by simp
  have a: "\<forall>session. snd (create_charging_session now uid u1 u2 req st) = Inr session \<longrightarrow>
      status session = ''reserved'' \<and>
      mock_sessions_db (fst (create_charging_session now uid u1 u2 req st)) =
        mock_sessions_db st @ [session] \<and>
      connector_status_of (fst (create_charging_session now uid u1 u2 req st))
        (station_id session) (connector_id session) = Some ''reserved''"
  proof (cases "checks_pass now req st")
    case True
    from checks_pass_naive[OF True] obtain s e where
      se: "start_time req = Naive s" "expected_end_time req = Naive e" and lt: "s < e"
      and avail: "connector_status_of st (station_id req) (connector_id req) = Some ''available''"
      by blast
    from avail show ?thesis
      by (simp add: create_success[OF True se] connector_status_of_commit)
         (simp add: new_reservation_def commit_reservation_def)
  next
    case False
    from create_failure[OF False, of uid u1 u2] show ?thesis by auto
  qed
  have b: "\<forall>session. snd (start_charging_session u1 u2 sid st) = Inr session \<longrightarrow>
      status session = ''in_progress'' \<and>
      find_session (mock_sessions_db (fst (start_charging_session u1 u2 sid st))) sid =
        Some session \<and>
      connector_status_of (fst (start_charging_session u1 u2 sid st))
        (station_id session) (connector_id session) = Some ''occupied''"
  proof (cases "find_session (mock_sessions_db st) sid")
    case None
    then show ?thesis by (simp add: start_char)
  next
    case (Some old)
    let ?new = "old\<lparr>status := ''in_progress'', start_time := u1, updated_at := u2\<rparr>"
    have "session_id ?new = sid" using find_session_Some[OF Some] by simp
    from transition_lockstep[OF res Some this, of "''occupied''"] Some
    show ?thesis by (simp add: start_char)
  qed
  have c: "\<forall>session. snd (end_charging_session u1 u2 sid kwh c st) = Inr session \<longrightarrow>
      status session = ''completed'' \<and>
      find_session (mock_sessions_db (fst (end_charging_session u1 u2 sid kwh c st))) sid =
        Some session \<and>
      connector_status_of (fst (end_charging_session u1 u2 sid kwh c st))
        (station_id session) (connector_id session) = Some ''available''"
  proof (cases "find_session (mock_sessions_db st) sid")
    case None
    then show ?thesis by (simp add: end_char)
  next
    case (Some old)
    let ?new = "old\<lparr>status := ''completed'', actual_end_time := Some u1,
                     kwh_consumed := Some kwh, cost := Some c, updated_at := u2\<rparr>"
    have "session_id ?new = sid" using find_session_Some[OF Some] by simp
    from transition_lockstep[OF res Some this, of "''available''"] Some
    show ?thesis by (simp add: end_char)
  qed
  have d: "snd (cancel_charging_session u1 sid st) = Inr () \<longrightarrow>
      (\<exists>session. status session = ''cancelled'' \<and>
         find_session (mock_sessions_db (fst (cancel_charging_session u1 sid st))) sid =
           Some session \<and>
         connector_status_of (fst (cancel_charging_session u1 sid st))
           (station_id session) (connector_id session) = Some ''available'')"
  proof (cases "find_session (mock_sessions_db st) sid")
    case None
    then show ?thesis by (simp add: cancel_char)
  next
    case (Some old)
    let ?new = "old\<lparr>status := ''cancelled'', updated_at := u1\<rparr>"
    have "session_id ?new = sid" using find_session_Some[OF Some] by simp
    from transition_lockstep[OF res Some this, of "''available''"] Some
    show ?thesis by (auto simp: cancel_char intro!: exI[of _ ?new])
  qed
  from a b c d show ?thesis by blast
qed

text \<open>
  The sample run: after the start connector C-001-1 is \<open>occupied\<close>, a reservation of
  the neighbouring connector leaves that one \<open>reserved\<close>, after the end (12.5 kWh,
  cost 4.3) C-001-1 is \<open>available\<close> again, and so it is after a cancellation.
\<close>

theorem lockstep_status_witness:
  "reachable ex_reserved
   \<and> snd (start_charging_session 601 602 ''s1'' ex_reserved) =
       Inr (ex_session\<lparr>status := ''in_progress'', start_time := 601, updated_at := 602\<rparr>)
   \<and> find_session (mock_sessions_db ex_started) ''s1'' =
       Some (ex_session\<lparr>status := ''in_progress'', start_time := 601, updated_at := 602\<rparr>)
   \<and> connector_status_of ex_started ''STN-001'' ''C-001-1'' = Some ''occupied''
   \<and> snd (create_charging_session 500 ''s2'' 501 502
           (ex_request\<lparr>connector_id := ''C-001-2''\<rparr>) ex_reserved) =
       Inr (ex_session\<lparr>connector_id := ''C-001-2'', session_id := ''s2''\<rparr>)
   \<and> connector_status_of (fst (create_charging_session 500 ''s2'' 501 502
           (ex_request\<lparr>connector_id := ''C-001-2''\<rparr>) ex_reserved))
         ''STN-001'' ''C-001-2'' = Some ''reserved''
   \<and> snd (end_charging_session 650 651 ''s1'' 12.5 4.3 ex_started) =
       Inr (ex_session\<lparr>status := ''completed'', start_time := 601, updated_at := 651,
              actual_end_time := Some 650, kwh_consumed := Some 12.5, cost := Some 4.3\<rparr>)
   \<and> connector_status_of (fst (end_charging_session 650 651 ''s1'' 12.5 4.3 ex_started))
         ''STN-001'' ''C-001-1'' = Some ''available''
   \<and> snd (cancel_charging_session 550 ''s1'' ex_reserved) = Inr ()
   \<and> connector_status_of ex_cancelled ''STN-001'' ''C-001-1'' = Some ''available''"
proof -
  note r = ex_reserved_reachable and s = ex_started_reachable
  have f: "find_session (mock_sessions_db ex_reserved) ''s1'' = Some ex_session"
    by (simp add: ex_reserved_eq find_session_def ex_session_def)
  have f': "find_session (mock_sessions_db ex_started) ''s1'' =
      Some (ex_session\<lparr>status := ''in_progress'', start_time := 601, updated_at := 602\<rparr>)"
    by (simp add: ex_started_eq find_session_def ex_session_def)
  have 1: "snd (start_charging_session 601 602 ''s1'' ex_reserved) =
       Inr (ex_session\<lparr>status := ''in_progress'', start_time := 601, updated_at := 602\<rparr>)"
    using f by (simp add: start_char ex_session_def)
  have 2: "snd (create_charging_session 500 ''s2'' 501 502
           (ex_request\<lparr>connector_id := ''C-001-2''\<rparr>) ex_reserved) =
       Inr (ex_session\<lparr>connector_id := ''C-001-2'', session_id := ''s2''\<rparr>)"
    by (simp add: ex_reserved_eq ex_defs)
  have 3: "snd (end_charging_session 650 651 ''s1'' 12.5 4.3 ex_started) =
       Inr (ex_session\<lparr>status := ''completed'', start_time := 601, updated_at := 651,
              actual_end_time := Some 650, kwh_consumed := Some 12.5, cost := Some 4.3\<rparr>)"
    using f' by (simp add: end_char ex_session_def)
  have 4: "snd (cancel_charging_session 550 ''s1'' ex_reserved) = Inr ()"
    using f by (simp add: cancel_char ex_session_def)
  from lockstep_status[OF r, of 500 "''s2''" 501 502 "ex_request\<lparr>connector_id := ''C-001-2''\<rparr>"
      "''s1''" 0 0]
    lockstep_status[OF r, of 0 "''x''" 601 602 ex_request "''s1''" 0 0] 1 2
  have a: "find_session (mock_sessions_db ex_started) ''s1'' =
       Some (ex_session\<lparr>status := ''in_progress'', start_time := 601, updated_at := 602\<rparr>)
   \<and> connector_status_of ex_started ''STN-001'' ''C-001-1'' = Some ''occupied''
   \<and> connector_status_of (fst (create_charging_session 500 ''s2'' 501 502
           (ex_request\<lparr>connector_id := ''C-001-2''\<rparr>) ex_reserved))
         ''STN-001'' ''C-001-2'' = Some ''reserved''"
    by (simp add: ex_started_def ex_session_def)
  from lockstep_status[OF s, of 0 "''x''" 650 651 ex_request "''s1''" "12.5" "4.3"] 3
  have b: "connector_status_of (fst (end_charging_session 650 651 ''s1'' 12.5 4.3 ex_started))
         ''STN-001'' ''C-001-1'' = Some ''available''"
    by (simp add: ex_session_def)
  from lockstep_status[OF r, of 0 "''x''" 550 551 ex_request "''s1''" 0 0] 4
  have c: "connector_status_of ex_cancelled ''STN-001'' ''C-001-1'' = Some ''available''"
    by (auto simp: ex_cancelled_def ex_cancelled_eq[unfolded ex_cancelled_def] find_session_def
          ex_session_def)
  from r 1 2 3 4 a b c show ?thesis by blast
qed

section \<open>C6: a call either fails and changes nothing, or commits\<close>

text \<open>
  Claim C6. Whenever reserve, start, end or cancel returns an error (any
  \<open>HTTPException\<close>, and also the \<open>TypeError\<close> of a comparison in reserve), the
  store (the ledger and every connector status) is exactly the store before the call. Whenever the call
  succeeds, both of its mutations are applied: reserve appends the returned session and
  marks its connector \<open>reserved\<close>; start and end replace the session by the returned
  one and mark its connector \<open>occupied\<close> and \<open>available\<close>; cancel replaces the
  session by its cancelled copy and marks its connector \<open>available\<close>.
\<close>

theorem failure_leaves_state:
  "(\<forall>e. snd (create_charging_session now uid u1 u2 req st) = Inl e \<longrightarrow>
        fst (create_charging_session now uid u1 u2 req st) = st)
   \<and> (\<forall>e. snd (start_charging_session u1 u2 sid st) = Inl e \<longrightarrow>
        fst (start_charging_session u1 u2 sid st) = st)
   \<and> (\<forall>e. snd (end_charging_session u1 u2 sid kwh c st) = Inl e \<longrightarrow>
        fst (end_charging_session u1 u2 sid kwh c st) = st)
   \<and> (\<forall>e. snd (cancel_charging_session u1 sid st) = Inl e \<longrightarrow>
        fst (cancel_charging_session u1 sid st) = st)
   \<and> (\<forall>session. snd (create_charging_session now uid u1 u2 req st) = Inr session \<longrightarrow>
        fst (create_charging_session now uid u1 u2 req st) =
          \<lparr>mock_stations_db = set_connector_status (mock_stations_db st)
              (station_id session) (connector_id session) ''reserved'',
           mock_sessions_db = mock_sessions_db st @ [session]\<rparr>)
   \<and> (\<forall>session. snd (start_charging_session u1 u2 sid st) = Inr session \<longrightarrow>
        fst (start_charging_session u1 u2 sid st) =
          \<lparr>mock_stations_db = set_connector_status (mock_stations_db st)
              (station_id session) (connector_id session) ''occupied'',
           mock_sessions_db = replace_session (mock_sessions_db st) sid session\<rparr>)
   \<and> (\<forall>session. snd (end_charging_session u1 u2 sid kwh c st) = Inr session \<longrightarrow>
        fst (end_charging_session u1 u2 sid kwh c st) =
          \<lparr>mock_stations_db = set_connector_status (mock_stations_db st)
              (station_id session) (connector_id session) ''available'',
           mock_sessions_db = replace_session (mock_sessions_db st) sid session\<rparr>)
   \<and> (snd (cancel_charging_session u1 sid st) = Inr () \<longrightarrow>
        (\<exists>session. find_session (mock_sessions_db st) sid = Some session \<and>
           fst (cancel_charging_session u1 sid st) =
             \<lparr>mock_stations_db = set_connector_status (mock_stations_db st)
                 (station_id session) (connector_id session) ''available'',
              mock_sessions_db = replace_session (mock_sessions_db st) sid
                 (session\<lparr>status := ''cancelled'', updated_at := u1\<rparr>)\<rparr>))"
proof -
  have create: "fst (create_charging_session now uid u1 u2 req st) =
      (case snd (create_charging_session now uid u1 u2 req st) of
         Inl e \<Rightarrow> st
       | Inr session \<Rightarrow>
          \<lparr>mock_stations_db = set_connector_status (mock_stations_db st)
              (station_id session) (connector_id session) ''reserved'',
           mock_sessions_db = mock_sessions_db st @ [session]\<rparr>)"
  proof (cases "checks_pass now req st")
    case True
    from checks_pass_naive[OF True] obtain s e where
      se: "start_time req = Naive s" "expected_end_time req = Naive e" and lt: "s < e"
      and avail: "connector_status_of st (station_id req) (connector_id req) = Some ''available''"
      by blast
    show ?thesis
      by (simp add: create_success[OF True se] commit_reservation_def new_reservation_def)
  next
    case False
    from create_failure[OF False, of uid u1 u2] show ?thesis
      by (auto split: sum.splits)
  qed
  have "(\<forall>e. snd (create_charging_session now uid u1 u2 req st) = Inl e \<longrightarrow>
        fst (create_charging_session now uid u1 u2 req st) = st)"
    using create by simp
  moreover have "(\<forall>session. snd (create_charging_session now uid u1 u2 req st) = Inr session \<longrightarrow>
        fst (create_charging_session now uid u1 u2 req st) =
          \<lparr>mock_stations_db = set_connector_status (mock_stations_db st)
              (station_id session) (connector_id session) ''reserved'',
           mock_sessions_db = mock_sessions_db st @ [session]\<rparr>)"
    using create by simp
  moreover have "(\<forall>e. snd (start_charging_session u1 u2 sid st) = Inl e \<longrightarrow>
        fst (start_charging_session u1 u2 sid st) = st)"
    by (auto simp: start_char split: option.splits if_splits)
  moreover have "(\<forall>e. snd (end_charging_session u1 u2 sid kwh c st) = Inl e \<longrightarrow>
        fst (end_charging_session u1 u2 sid kwh c st) = st)"
    by (auto simp: end_char split: option.splits if_splits)
  moreover have "(\<forall>e. snd (cancel_charging_session u1 sid st) = Inl e \<longrightarrow>
        fst (cancel_charging_session u1 sid st) = st)"
    by (auto simp: cancel_char split: option.splits if_splits)
  moreover have "(\<forall>session. snd (start_charging_session u1 u2 sid st) = Inr session \<longrightarrow>
        fst (start_charging_session u1 u2 sid st) =
          \<lparr>mock_stations_db = set_connector_status (mock_stations_db st)
              (station_id session) (connector_id session) ''occupied'',
           mock_sessions_db = replace_session (mock_sessions_db st) sid session\<rparr>)"
    by (auto simp: start_char transition_def split: option.splits if_splits)
  moreover have "(\<forall>session. snd (end_charging_session u1 u2 sid kwh c st) = Inr session \<longrightarrow>
        fst (end_charging_session u1 u2 sid kwh c st) =
          \<lparr>mock_stations_db = set_connector_status (mock_stations_db st)
              (station_id session) (connector_id session) ''available'',
           mock_sessions_db = replace_session (mock_sessions_db st) sid session\<rparr>)"
    by (auto simp: end_char transition_def split: option.splits if_splits)
  moreover have "(snd (cancel_charging_session u1 sid st) = Inr () \<longrightarrow>
        (\<exists>session. find_session (mock_sessions_db st) sid = Some session \<and>
           fst (cancel_charging_session u1 sid st) =
             \<lparr>mock_stations_db = set_connector_status (mock_stations_db st)
                 (station_id session) (connector_id session) ''available'',
              mock_sessions_db = replace_session (mock_sessions_db st) sid
                 (session\<lparr>status := ''cancelled'', updated_at := u1\<rparr>)\<rparr>))"
    by (auto simp: cancel_char transition_def split: option.splits if_splits)
  ultimately show ?thesis by blast
qed

text \<open>
  Four failing calls, one per endpoint, each returning the store it was given, and the
  successful cancellation of the sample reservation with both of its mutations.
\<close>

theorem failure_leaves_state_witness:
  "snd (create_charging_session 500 ''s2'' 501 502
          (ex_request\<lparr>start_time := Naive 630, expected_end_time := Naive 690\<rparr>) ex_reserved) =
     Inl (HTTPException 409 ''Connector C-001-1 is currently reserved.'')
   \<and> fst (create_charging_session 500 ''s2'' 501 502
          (ex_request\<lparr>start_time := Naive 630, expected_end_time := Naive 690\<rparr>) ex_reserved) = ex_reserved
   \<and> snd (end_charging_session 601 602 ''s1'' 12.5 4.3 ex_reserved) =
     Inl (HTTPException 400 ''Session is not in 'in_progress' status.'')
   \<and> fst (end_charging_session 601 602 ''s1'' 12.5 4.3 ex_reserved) = ex_reserved
   \<and> snd (start_charging_session 603 604 ''s1'' ex_started) =
     Inl (HTTPException 400 ''Session is not in 'reserved' status.'')
   \<and> fst (start_charging_session 603 604 ''s1'' ex_started) = ex_started
   \<and> snd (cancel_charging_session 603 ''nope'' ex_started) =
     Inl (HTTPException 404 ''Session not found.'')
   \<and> fst (cancel_charging_session 603 ''nope'' ex_started) = ex_started
   \<and> snd (cancel_charging_session 550 ''s1'' ex_reserved) = Inr ()
   \<and> ex_cancelled =
       \<lparr>mock_stations_db = set_connector_status (mock_stations_db ex_reserved)
           ''STN-001'' ''C-001-1'' ''available'',
        mock_sessions_db = replace_session (mock_sessions_db ex_reserved) ''s1''
           (ex_session\<lparr>status := ''cancelled'', updated_at := 550\<rparr>)\<rparr>"
proof -
  have f: "find_session (mock_sessions_db ex_reserved) ''s1'' = Some ex_session"
    by (simp add: ex_reserved_eq find_session_def ex_session_def)
  have f': "find_session (mock_sessions_db ex_started) ''s1'' =
      Some (ex_session\<lparr>status := ''in_progress'', start_time := 601, updated_at := 602\<rparr>)"
    by (simp add: ex_started_eq find_session_def ex_session_def)
  have f'': "find_session (mock_sessions_db ex_started) ''nope'' = None"
    by (simp add: ex_started_eq find_session_def ex_session_def)
  have 1: "snd (create_charging_session 500 ''s2'' 501 502
          (ex_request\<lparr>start_time := Naive 630, expected_end_time := Naive 690\<rparr>) ex_reserved) =
     Inl (HTTPException 409 ''Connector C-001-1 is currently reserved.'')"
    by (simp add: ex_reserved_eq ex_defs)
  have 2: "snd (end_charging_session 601 602 ''s1'' 12.5 4.3 ex_reserved) =
     Inl (HTTPException 400 ''Session is not in 'in_progress' status.'')"
    using f by (simp add: end_char ex_session_def)
  have 3: "snd (start_charging_session 603 604 ''s1'' ex_started) =
     Inl (HTTPException 400 ''Session is not in 'reserved' status.'')"
    using f' by (simp add: start_char ex_session_def)
  have 4: "snd (cancel_charging_session 603 ''nope'' ex_started) =
     Inl (HTTPException 404 ''Session not found.'')"
    using f'' by (simp add: cancel_char)
  have 5: "snd (cancel_charging_session 550 ''s1'' ex_reserved) = Inr ()"
    using f by (simp add: cancel_char ex_session_def)
  note t = failure_leaves_state
  from t[of 500 "''s2''" 501 502 "ex_request\<lparr>start_time := Naive 630, expected_end_time := Naive 690\<rparr>"
      ex_reserved "''s1''" "12.5" "4.3"] 1
  have a: "fst (create_charging_session 500 ''s2'' 501 502
          (ex_request\<lparr>start_time := Naive 630, expected_end_time := Naive 690\<rparr>) ex_reserved) = ex_reserved"
    by simp
  from t[of 0 "''x''" 601 602 ex_request ex_reserved "''s1''" "12.5" "4.3"] 2
  have b: "fst (end_charging_session 601 602 ''s1'' 12.5 4.3 ex_reserved) = ex_reserved"
    by simp
  from t[of 0 "''x''" 603 604 ex_request ex_started "''s1''" 0 0] 3
  have c: "fst (start_charging_session 603 604 ''s1'' ex_started) = ex_started"
    by simp
  from t[of 0 "''x''" 603 604 ex_request ex_started "''nope''" 0 0] 4
  have d: "fst (cancel_charging_session 603 ''nope'' ex_started) = ex_started"
    by simp
  from t[of 0 "''x''" 550 551 ex_request ex_reserved "''s1''" 0 0] 5 f
  have e: "ex_cancelled =
       \<lparr>mock_stations_db = set_connector_status (mock_stations_db ex_reserved)
           ''STN-001'' ''C-001-1'' ''available'',
        mock_sessions_db = replace_session (mock_sessions_db ex_reserved) ''s1''
           (ex_session\<lparr>status := ''cancelled'', updated_at := 550\<rparr>)\<rparr>"
    by (simp add: ex_cancelled_def ex_session_def)
  from 1 2 3 4 5 a b c d e show ?thesis by blast
qed

section \<open>Properties of every session of the ledger\<close>

lemma all_sessions_replace:
  "\<forall>s \<in> set db. P s \<Longrightarrow> P new \<Longrightarrow> \<forall>s \<in> set (replace_session db sid new). P s"
  using set_replace_session[of db sid new] by auto

text \<open>
  A property of all sessions survives a call when the one session the call writes has it.
\<close>

lemma all_sessions_transition:
  assumes "\<forall>s \<in> set (mock_sessions_db st). P s" "P new"
  shows "\<forall>s \<in> set (mock_sessions_db (transition st sid old new v)). P s"
  unfolding mock_sessions_db_transition by (rule all_sessions_replace[OF assms])

lemma all_sessions_create:
  assumes "\<forall>s \<in> set (mock_sessions_db st). P s"
    "\<And>s e. start_time req = Naive s \<Longrightarrow> expected_end_time req = Naive e \<Longrightarrow> s < e \<Longrightarrow>
        P (new_reservation uid u1 u2 req s e)"
  shows "\<forall>s \<in> set (mock_sessions_db (fst (create_charging_session now uid u1 u2 req st))). P s"
proof (cases "checks_pass now req st")
  case True
  from checks_pass_naive[OF True] obtain s e where
    se: "start_time req = Naive s" "expected_end_time req = Naive e" and lt: "s < e"
    by blast
  from assms(1) assms(2)[OF se lt] show ?thesis
    by (simp add: create_success[OF True se] commit_reservation_def)
next
  case False
  with assms show ?thesis by (simp add: create_failure)
qed

lemma all_sessions_start:
  assumes "\<forall>s \<in> set (mock_sessions_db st). P s"
    "\<And>old. old \<in> set (mock_sessions_db st) \<Longrightarrow> status old = ''reserved'' \<Longrightarrow>
        P (old\<lparr>status := ''in_progress'', start_time := u1, updated_at := u2\<rparr>)"
  shows "\<forall>s \<in> set (mock_sessions_db (fst (start_charging_session u1 u2 sid st))). P s"
proof (cases "find_session (mock_sessions_db st) sid")
  case None
  with assms(1) show ?thesis by (simp add: start_char)
next
  case (Some old)
  show ?thesis
  proof (cases "status old = ''reserved''")
    case True
    have mem: "old \<in> set (mock_sessions_db st)"
      using find_session_Some[OF Some] by simp
    have step: "fst (start_charging_session u1 u2 sid st) =
        transition st sid old (old\<lparr>status := ''in_progress'', start_time := u1, updated_at := u2\<rparr>) ''occupied''"
      using Some True by (simp add: start_char)
    show ?thesis
      unfolding step by (rule all_sessions_transition[OF assms(1) assms(2)[OF mem True]])
  next
    case False
    with Some assms(1) show ?thesis by (simp add: start_char)
  qed
qed

lemma all_sessions_end:
  assumes "\<forall>s \<in> set (mock_sessions_db st). P s"
    "\<And>old. old \<in> set (mock_sessions_db st) \<Longrightarrow> status old = ''in_progress'' \<Longrightarrow>
        P (old\<lparr>status := ''completed'', actual_end_time := Some u1,
                kwh_consumed := Some kwh, cost := Some c, updated_at := u2\<rparr>)"
  shows "\<forall>s \<in> set (mock_sessions_db (fst (end_charging_session u1 u2 sid kwh c st))). P s"
proof (cases "find_session (mock_sessions_db st) sid")
  case None
  with assms(1) show ?thesis by (simp add: end_char)
next
  case (Some old)
  show ?thesis
  proof (cases "status old = ''in_progress''")
    case True
    have mem: "old \<in> set (mock_sessions_db st)"
      using find_session_Some[OF Some] by simp
    have step: "fst (end_charging_session u1 u2 sid kwh c st) =
        transition st sid old (old\<lparr>status := ''completed'', actual_end_time := Some u1,
                kwh_consumed := Some kwh, cost := Some c, updated_at := u2\<rparr>) ''available''"
      using Some True by (simp add: end_char)
    show ?thesis
      unfolding step by (rule all_sessions_transition[OF assms(1) assms(2)[OF mem True]])
  next
    case False
    with Some assms(1) show ?thesis by (simp add: end_char)
  qed
qed

lemma all_sessions_cancel:
  assumes "\<forall>s \<in> set (mock_sessions_db st). P s"
    "\<And>old. old \<in> set (mock_sessions_db st) \<Longrightarrow> status old = ''reserved'' \<Longrightarrow>
        P (old\<lparr>status := ''cancelled'', updated_at := u\<rparr>)"
  shows "\<forall>s \<in> set (mock_sessions_db (fst (cancel_charging_session u sid st))). P s"
proof (cases "find_session (mock_sessions_db st) sid")
  case None
  with assms(1) show ?thesis by (simp add: cancel_char)
next
  case (Some old)
  show ?thesis
  proof (cases "status old = ''reserved''")
    case True
    have mem: "old \<in> set (mock_sessions_db st)"
      using find_session_Some[OF Some] by simp
    have step: "fst (cancel_charging_session u sid st) =
        transition st sid old (old\<lparr>status := ''cancelled'', updated_at := u\<rparr>) ''available''"
      using Some True by (simp add: cancel_char)
    show ?thesis
      unfolding step by (rule all_sessions_transition[OF assms(1) assms(2)[OF mem True]])
  next
    case False
    with Some assms(1) show ?thesis by (simp add: cancel_char)
  qed
qed

section \<open>C7: the window of a session\<close>

text \<open>
  Claim C7 says that every session of a reachable ledger has
  \<open>start_time < expected_end_time\<close>, also after start. Start overwrites
  \<open>start_time\<close> with the current time and compares it with nothing, and a reservation
  does not expire: the sample reservation for the window from 600 to 660, started at
  time 700, is in progress with start time 700 and expected end time 660.
\<close>

theorem start_after_window_counterexample:
  "reachable ex_late \<and> ex_late_session \<in> set (mock_sessions_db ex_late) \<and>
   \<not> start_time ex_late_session < expected_end_time ex_late_session"
  by (simp add: ex_late_reachable ex_late_sessions) (simp add: ex_late_session_def ex_session_def)

text \<open>
  Claim C7, as amended. In every reachable state, every session with status
  \<open>reserved\<close> or \<open>cancelled\<close>, that is every session that was never started,
  satisfies \<open>start_time < expected_end_time\<close>. A successful start sets
  \<open>start_time\<close> to the clock reading of the call and keeps the expected end time, so
  for a started session the inequality holds exactly when it was started before its
  expected end time.
\<close>

theorem unstarted_window_ordered:
  assumes "reachable st"
  shows "(\<forall>s \<in> set (mock_sessions_db st).
            status s = ''reserved'' \<or> status s = ''cancelled'' \<longrightarrow>
            start_time s < expected_end_time s)
         \<and> (\<forall>session. snd (start_charging_session u1 u2 sid st) = Inr session \<longrightarrow>
              start_time session = u1 \<and>
              (\<exists>old. find_session (mock_sessions_db st) sid = Some old \<and>
                 expected_end_time session = expected_end_time old))"
proof
  show "\<forall>s \<in> set (mock_sessions_db st).
            status s = ''reserved'' \<or> status s = ''cancelled'' \<longrightarrow>
            start_time s < expected_end_time s"
    using assms
  proof (induction rule: reachable.induct)
    case reach_init
    show ?case by (simp add: initial_state_def)
  next
    case (reach_reserve st now new_session_id utc_created utc_updated session_data)
    show ?case
      by (rule all_sessions_create[OF reach_reserve.IH])
         (simp add: new_reservation_def)
  next
    case (reach_start st utc_start utc_updated sid)
    show ?case by (rule all_sessions_start[OF reach_start.IH]) simp
  next
    case (reach_end st utc_end utc_updated sid kwh c)
    show ?case by (rule all_sessions_end[OF reach_end.IH]) simp
  next
    case (reach_cancel st utc_updated sid)
    show ?case by (rule all_sessions_cancel[OF reach_cancel.IH]) (use reach_cancel.IH in auto)
  qed
next
  show "\<forall>session. snd (start_charging_session u1 u2 sid st) = Inr session \<longrightarrow>
              start_time session = u1 \<and>
              (\<exists>old. find_session (mock_sessions_db st) sid = Some old \<and>
                 expected_end_time session = expected_end_time old)"
    by (auto simp: start_char split: option.splits if_splits)
qed

text \<open>
  The cancelled sample reservation keeps its window from 600 to 660; the start at time
  700 returns a session whose start time is 700.
\<close>

theorem unstarted_window_ordered_witness:
  "reachable ex_cancelled \<and>
   ex_session\<lparr>status := ''cancelled'', updated_at := 550\<rparr> \<in> set (mock_sessions_db ex_cancelled) \<and>
   status (ex_session\<lparr>status := ''cancelled'', updated_at := 550\<rparr>) = ''cancelled'' \<and>
   start_time (ex_session\<lparr>status := ''cancelled'', updated_at := 550\<rparr>)
     < expected_end_time (ex_session\<lparr>status := ''cancelled'', updated_at := 550\<rparr>) \<and>
   reachable ex_reserved \<and>
   snd (start_charging_session 700 701 ''s1'' ex_reserved) = Inr ex_late_session \<and>
   start_time ex_late_session = 700"
proof -
  have m: "ex_session\<lparr>status := ''cancelled'', updated_at := 550\<rparr> \<in> set (mock_sessions_db ex_cancelled)"
    by (simp add: ex_cancelled_eq)
  have f: "find_session (mock_sessions_db ex_reserved) ''s1'' = Some ex_session"
    by (simp add: ex_reserved_eq find_session_def ex_session_def)
  have s: "snd (start_charging_session 700 701 ''s1'' ex_reserved) = Inr ex_late_session"
    using f by (simp add: start_char ex_late_session_def) (simp add: ex_session_def)
  from unstarted_window_ordered[OF ex_cancelled_reachable, of 0 0 "''x''"] m
  have a: "start_time (ex_session\<lparr>status := ''cancelled'', updated_at := 550\<rparr>)
     < expected_end_time (ex_session\<lparr>status := ''cancelled'', updated_at := 550\<rparr>)"
    by auto
  from unstarted_window_ordered[OF ex_reserved_reachable, of 700 701 "''s1''"] s
  have b: "start_time ex_late_session = 700" by simp
  from ex_cancelled_reachable ex_reserved_reachable m s a b show ?thesis by simp
qed

section \<open>C9: one non-terminal session per connector\<close>

text \<open>
  Claim C9 says that while a connector has a non-terminal session every further reserve
  request for it fails with Conflict. The window checks come first: in the sample run,
  with connector C-001-1 reserved, a request for that connector whose window has already
  ended fails with 400 (InvalidWindow).
\<close>

theorem busy_connector_invalid_window_counterexample:
  "reachable ex_reserved \<and>
   sessions_on ex_reserved ''STN-001'' ''C-001-1'' = [ex_session] \<and>
   station_id ex_request = ''STN-001'' \<and> connector_id ex_request = ''C-001-1'' \<and>
   create_charging_session 700 ''s2'' 701 702 ex_request ex_reserved =
     (ex_reserved, Inl (HTTPException 400 ''Cannot reserve a session in the past.''))"
  by (simp add: ex_reserved_reachable)
     (simp add: sessions_on_def non_terminal_def ex_reserved_eq ex_session_def ex_request_def
        create_charging_session_def http_codes)

text \<open>
  Claim C9, as amended. In every reachable state each pair of station id and connector id
  has at most one session with status \<open>reserved\<close> or \<open>in_progress\<close>. While a
  connector has such a session its status is not \<open>available\<close>, and every further
  reserve request for it whose two timestamps are naive fails and leaves the store
  unchanged: with 400 (InvalidWindow) when its window does not end after the current time
  or does not start before it ends, and otherwise with 409 (Conflict) at the status
  check, whether or not the requested window overlaps that of the existing session.
\<close>

theorem one_active_session_per_connector:
  assumes "reachable st"
  shows "(\<forall>sid cid. length (sessions_on st sid cid) \<le> 1)
   \<and> (\<forall>now uid u1 u2 req s e.
        sessions_on st (station_id req) (connector_id req) \<noteq> [] \<and>
        start_time req = Naive s \<and> expected_end_time req = Naive e \<longrightarrow>
        (\<exists>z. connector_status_of st (station_id req) (connector_id req) = Some z \<and>
              z \<noteq> ''available'' \<and>
              create_charging_session now uid u1 u2 req st =
                (st, Inl (if e \<le> now
                          then HTTPException 400 ''Cannot reserve a session in the past.''
                          else if e \<le> s
                          then HTTPException 400 ''Start time must be before end time.''
                          else HTTPException 409
                                 (''Connector '' @ connector_id req @ '' is currently '' @ z
                                    @ ''.'')))))"
proof -
  from reachable_inv[OF assms] have res: "inv_resolves st" and act: "inv_active st" by simp_all
  have one: "\<forall>sid cid. length (sessions_on st sid cid) \<le> 1"
    using act by (simp add: inv_active_def)
  have busy: "\<exists>z. connector_status_of st (station_id req) (connector_id req) = Some z \<and>
              z \<noteq> ''available'' \<and>
              create_charging_session now uid u1 u2 req st =
                (st, Inl (if e \<le> now
                          then HTTPException 400 ''Cannot reserve a session in the past.''
                          else if e \<le> s
                          then HTTPException 400 ''Start time must be before end time.''
                          else HTTPException 409
                                 (''Connector '' @ connector_id req @ '' is currently '' @ z
                                    @ ''.'')))"
    if ne: "sessions_on st (station_id req) (connector_id req) \<noteq> []"
      and se: "start_time req = Naive s" "expected_end_time req = Naive e"
    for now uid u1 u2 req s e
  proof -
    from ne obtain x where x: "x \<in> set (mock_sessions_db st)"
        "station_id x = station_id req" "connector_id x = connector_id req"
      by (auto simp: sessions_on_def filter_empty_conv)
    with res obtain tc where
      tc: "lookup_connector (mock_stations_db st) (station_id req) (connector_id req) = Some tc"
      by (auto simp: inv_resolves_def)
    then have z: "connector_status_of st (station_id req) (connector_id req) =
        Some (Connector.status tc)"
      by (simp add: connector_status_of_def)
    have nav: "Connector.status tc \<noteq> ''available''"
      using act ne z by (auto simp: inv_active_def)
    have "create_charging_session now uid u1 u2 req st =
                (st, Inl (if e \<le> now
                          then HTTPException 400 ''Cannot reserve a session in the past.''
                          else if e \<le> s
                          then HTTPException 400 ''Start time must be before end time.''
                          else HTTPException 409
                                 (''Connector '' @ connector_id req @ '' is currently ''
                                    @ Connector.status tc @ ''.'')))"
      using tc nav se
      by (auto simp: create_charging_session_def http_codes lookup_connector_def
            split: option.splits)
    with z nav show ?thesis by blast
  qed
  from one busy show ?thesis by blast
qed

text \<open>
  In the sample run connector C-001-1 has one non-terminal session, for the window from
  600 to 660; a request for the window from 700 to 760, which does not overlap it, fails
  with 409.
\<close>

theorem one_active_session_per_connector_witness:
  "reachable ex_reserved \<and>
   length (sessions_on ex_reserved ''STN-001'' ''C-001-1'') = 1 \<and>
   sessions_on ex_reserved ''STN-001'' ''C-001-1'' \<noteq> [] \<and>
   start_time (ex_request\<lparr>start_time := Naive 700, expected_end_time := Naive 760\<rparr>) = Naive 700 \<and>
   expected_end_time (ex_request\<lparr>start_time := Naive 700, expected_end_time := Naive 760\<rparr>) =
     Naive 760 \<and>
   connector_status_of ex_reserved ''STN-001'' ''C-001-1'' = Some ''reserved'' \<and>
   create_charging_session 500 ''s2'' 501 502
       (ex_request\<lparr>start_time := Naive 700, expected_end_time := Naive 760\<rparr>) ex_reserved =
     (ex_reserved, Inl (HTTPException 409 ''Connector C-001-1 is currently reserved.''))"
proof -
  let ?req = "ex_request\<lparr>start_time := Naive 700, expected_end_time := Naive 760\<rparr>"
  have on: "sessions_on ex_reserved ''STN-001'' ''C-001-1'' = [ex_session]"
    by (simp add: sessions_on_def non_terminal_def ex_reserved_eq ex_session_def)
  have cs: "connector_status_of ex_reserved ''STN-001'' ''C-001-1'' = Some ''reserved''"
    by (simp add: connector_status_of_def lookup_connector_def ex_reserved_eq
          initial_stations_def find_station_def find_connector_def)
  have rq: "station_id ?req = ''STN-001''" "connector_id ?req = ''C-001-1''"
      "start_time ?req = Naive 700" "expected_end_time ?req = Naive 760"
    by (simp_all add: ex_request_def)
  have pre: "sessions_on ex_reserved (station_id ?req) (connector_id ?req) \<noteq> [] \<and>
      start_time ?req = Naive 700 \<and> expected_end_time ?req = Naive 760"
    using on rq by simp
  from one_active_session_per_connector[OF ex_reserved_reachable, THEN conjunct2, rule_format,
      OF pre, of 500 "''s2''" 501 502]
  have "create_charging_session 500 ''s2'' 501 502 ?req ex_reserved =
     (ex_reserved, Inl (HTTPException 409 ''Connector C-001-1 is currently reserved.''))"
    using cs rq(1,2) by auto
  with ex_reserved_reachable on cs rq(3,4) show ?thesis by simp
qed

section \<open>C10: no session is ever failed\<close>

text \<open>
  Claim C10. In every reachable state every session of the ledger has one of the statuses
  \<open>reserved\<close>, \<open>in_progress\<close>, \<open>completed\<close> and \<open>cancelled\<close>; none has
  status \<open>failed\<close>, which the data model lists and no endpoint assigns.
\<close>

theorem no_failed_status:
  assumes "reachable st"
  shows "\<forall>s \<in> set (mock_sessions_db st).
           status s \<in> {''reserved'', ''in_progress'', ''completed'', ''cancelled''} \<and>
           status s \<noteq> ''failed''"
  using assms
proof (induction rule: reachable.induct)
  case reach_init
  show ?case by (simp add: initial_state_def)
next
  case (reach_reserve st now new_session_id utc_created utc_updated session_data)
  show ?case
    by (rule all_sessions_create[OF reach_reserve.IH]) (simp add: new_reservation_def)
next
  case (reach_start st utc_start utc_updated sid)
  show ?case by (rule all_sessions_start[OF reach_start.IH]) simp
next
  case (reach_end st utc_end utc_updated sid kwh c)
  show ?case by (rule all_sessions_end[OF reach_end.IH]) simp
next
  case (reach_cancel st utc_updated sid)
  show ?case by (rule all_sessions_cancel[OF reach_cancel.IH]) simp
qed

text \<open>The started sample session is in progress.\<close>

theorem no_failed_status_witness:
  "reachable ex_started \<and>
   ex_session\<lparr>status := ''in_progress'', start_time := 601, updated_at := 602\<rparr>
     \<in> set (mock_sessions_db ex_started) \<and>
   status (ex_session\<lparr>status := ''in_progress'', start_time := 601, updated_at := 602\<rparr>)
     \<in> {''reserved'', ''in_progress'', ''completed'', ''cancelled''} \<and>
   status (ex_session\<lparr>status := ''in_progress'', start_time := 601, updated_at := 602\<rparr>)
     \<noteq> ''failed''"
proof -
  have m: "ex_session\<lparr>status := ''in_progress'', start_time := 601, updated_at := 602\<rparr>
     \<in> set (mock_sessions_db ex_started)"
    by (simp add: ex_started_eq)
  from no_failed_status[OF ex_started_reachable] m ex_started_reachable
  show ?thesis by blast
qed

end
